theory Spec2Isabelle
  imports
    Main
    "HOL-Library.Char_ord"
    "HOL-Library.List_Lexorder"
    "HOL-Library.Product_Lexorder"
    "HOL-Library.Multiset"
begin

section \<open>The appointment routes of \<^verbatim>\<open>src/modules/booking/routes/booking.js\<close>\<close>

text \<open>
  The file holds Express route handlers over four Mongoose models (Appointment, Patient,
  Provider, Practice). Each handler is an \<^verbatim>\<open>async\<close> function whose whole body sits in
  one \<^verbatim>\<open>try\<close> block; the \<^verbatim>\<open>catch\<close> block answers with status 500. A handler is
  embedded as a function from the environment, the store and the request to the response
  and the store afterwards.
\<close>

subsection \<open>JavaScript dates\<close>

text \<open>
  A JavaScript \<^verbatim>\<open>Date\<close> holds a time value, the milliseconds since the epoch in UTC,
  or NaN (an Invalid Date): \<open>Some t\<close> and \<open>None\<close> here. A time value lies within
  8.64e15 ms of the epoch; ECMAScript's \<^verbatim>\<open>TimeClip\<close> turns any other number into NaN.
  \<^verbatim>\<open>new Date(s)\<close> on a string is the parameter \<open>new_Date\<close> of the environment.
\<close>

type_synonym jsdate = "int option"

definition msPerDay :: int where
  "msPerDay = 86400000"

definition TimeClip :: "int \<Rightarrow> jsdate" where
  "TimeClip t = (if \<bar>t\<bar> \<le> 8640000000000000 then Some t else None)"


text \<open>
  A query parameter is a string or absent; \<^verbatim>\<open>if (date)\<close> holds for a present, non-empty
  string. \<open>truthy\<close> returns the string when the test holds.
\<close>

definition truthy :: "string option \<Rightarrow> string option" where
  "truthy p = (case p of None \<Rightarrow> None | Some s \<Rightarrow> if s = [] then None else Some s)"

subsection \<open>Documents\<close>

text \<open>
  The Mongoose schemas live in \<^verbatim>\<open>../models\<close>, outside the file. The records hold the
  fields that the routes read and write; identifiers are natural numbers, the values
  after the cast of the strings that a request carries.
\<close>

record doc =
  oid :: nat

text \<open>
  Modelled from the spec: the Appointment schema (practice, patient and provider
  reference, appointment date, start time, end time, status).
\<close>

record appointment = doc +
  practiceId :: nat
  patientId :: nat
  providerId :: nat
  appointmentDate :: int
  startTime :: string
  endTime :: string
  status :: string

text \<open>
  Modelled from the spec: the \<^verbatim>\<open>stats\<close> counters of Patient, Provider and Practice, and
  the weekly schedule and full name of a provider
  (\<^verbatim>\<open>provider.schedule[dayName].available\<close>, \<^verbatim>\<open>provider.fullName\<close>).
\<close>

record patient_stats =
  nextAppointment :: jsdate
  cancelledAppointments :: nat

record patient = doc +
  patient_stats :: patient_stats

record day_schedule =
  available :: bool

record provider_stats =
  provider_totalAppointments :: nat

record provider = doc +
  fullName :: string
  schedule :: "string \<rightharpoonup> day_schedule"
  provider_stats :: provider_stats

record practice_stats =
  practice_totalAppointments :: nat

record practice = doc +
  practice_stats :: practice_stats

record db =
  appointments :: "appointment list"
  patients :: "patient list"
  providers :: "provider list"
  practices :: "practice list"

subsection \<open>Store calls, exceptions and the environment\<close>

text \<open>
  Every \<^verbatim>\<open>await\<close> of the file is a call into the store, named here by its model and
  method. A call either resolves or rejects; which calls reject is an input
  (\<open>rejects\<close>). A rejection, a Mongoose cast or validation error and a JavaScript
  \<^verbatim>\<open>TypeError\<close> are the exceptions that reach the \<^verbatim>\<open>catch\<close> block.
\<close>

datatype store_call =
    Appointment_find
  | Appointment_findById
  | Appointment_findOne
  | Appointment_save
  | Appointment_countDocuments_provider
  | Appointment_countDocuments_practice
  | Appointment_reschedule
  | Appointment_findByIdAndDelete
  | Patient_findById
  | Patient_updateStats
  | Provider_findById
  | Provider_updateStats
  | Practice_findById
  | Practice_updateStats

datatype exn =
    Rejected store_call
  | CastError
  | ValidationError
  | TypeError

text \<open>
  The environment also holds the time zone of the server, as ECMAScript's
  \<^verbatim>\<open>LocalTZA(t, isUTC)\<close>: the offset of local time from UTC in milliseconds, at the
  UTC time \<open>t\<close> when \<open>isUTC\<close> holds and at the local time \<open>t\<close> otherwise; and the cast
  of Mongoose from the string of a request to an identifier, which fails on a string that
  is no ObjectId.
\<close>

record env =
  new_Date :: "string \<Rightarrow> jsdate"
  localTZA :: "int \<Rightarrow> bool \<Rightarrow> int"
  cast_ObjectId :: "string \<Rightarrow> nat option"
  rejects :: "store_call \<Rightarrow> bool"

text \<open>
  ECMAScript's \<^verbatim>\<open>LocalTime(t) = t + LocalTZA(t, true)\<close> and
  \<^verbatim>\<open>UTC(t) = t - LocalTZA(t, false)\<close>.
\<close>

definition LocalTime :: "env \<Rightarrow> int \<Rightarrow> int" where
  "LocalTime e t = t + localTZA e t True"

definition UTC :: "env \<Rightarrow> int \<Rightarrow> int" where
  "UTC e t = t - localTZA e t False"

text \<open>
  \<^verbatim>\<open>getDay()\<close> is \<^verbatim>\<open>WeekDay(LocalTime(t))\<close> with
  \<^verbatim>\<open>WeekDay(t) = (Day(t) + 4) mod 7\<close> and \<^verbatim>\<open>Day(t) = floor(t / msPerDay)\<close>; 0 is
  Sunday.
\<close>

definition getDay :: "env \<Rightarrow> int \<Rightarrow> nat" where
  "getDay e t = nat ((LocalTime e t div msPerDay + 4) mod 7)"

text \<open>
  \<^verbatim>\<open>d.setDate(d.getDate() + 1)\<close>: on an Invalid Date nothing changes. Otherwise
  \<^verbatim>\<open>setDate\<close> takes the local time \<^verbatim>\<open>LocalTime(t)\<close>, replaces the day of the month
  and keeps the time within the day, which for the day after \<^verbatim>\<open>getDate()\<close> is the local
  time one \<open>msPerDay\<close> later, and stores \<^verbatim>\<open>TimeClip(UTC(...))\<close> of it. Where the zone
  changes its offset in between, the result is not 24 hours after \<open>t\<close>; past the end of
  the range it is an Invalid Date.
\<close>

definition setDate_next :: "env \<Rightarrow> jsdate \<Rightarrow> jsdate" where
  "setDate_next e d =
     (case d of
        None \<Rightarrow> None
      | Some t \<Rightarrow> TimeClip (UTC e (LocalTime e t + msPerDay)))"


text \<open>
  An asynchronous computation takes the store and gives an exception or a value, and the
  store afterwards.
\<close>

type_synonym 'a io = "db \<Rightarrow> (exn + 'a) \<times> db"

definition return :: "'a \<Rightarrow> 'a io" where
  "return x = (\<lambda>s. (Inr x, s))"

definition throw :: "exn \<Rightarrow> 'a io" where
  "throw x = (\<lambda>s. (Inl x, s))"

definition bind :: "'a io \<Rightarrow> ('a \<Rightarrow> 'b io) \<Rightarrow> 'b io" where
  "bind m f = (\<lambda>s. case m s of (Inl x, s') \<Rightarrow> (Inl x, s') | (Inr v, s') \<Rightarrow> f v s')"

definition await :: "env \<Rightarrow> store_call \<Rightarrow> 'a io \<Rightarrow> 'a io" where
  "await e c m = (if rejects e c then throw (Rejected c) else m)"

subsection \<open>Responses\<close>

text \<open>
  The envelope \<^verbatim>\<open>{success, count?, data?, message?, error?, details?}\<close> with the HTTP
  status. \<^verbatim>\<open>details\<close> is \<^verbatim>\<open>error.message\<close>: the exception stands for its message.
\<close>

record 'a response =
  res_status :: nat
  success :: bool
  count :: "nat option"
  data :: "'a option"
  message :: "string option"
  error :: "string option"
  details :: "exn option"

definition json_success :: "nat \<Rightarrow> 'a response" where
  "json_success c = \<lparr>res_status = c, success = True, count = None, data = None,
              message = None, error = None, details = None\<rparr>"

definition json_error :: "nat \<Rightarrow> string \<Rightarrow> 'a response" where
  "json_error c msg = \<lparr>res_status = c, success = False, count = None, data = None,
              message = None, error = Some msg, details = None\<rparr>"

text \<open>
  \<^verbatim>\<open>try { ... } catch (error) { res.status(500).json({success: false, error: label,
  details: error.message}) }\<close>. The store keeps what was written before the exception.
\<close>

definition try_catch :: "string \<Rightarrow> ('a response) io \<Rightarrow> db \<Rightarrow> 'a response \<times> db" where
  "try_catch label m s =
     (case m s of
        (Inr r, s') \<Rightarrow> (r, s')
      | (Inl x, s') \<Rightarrow> ((json_error 500 label)\<lparr>details := Some x\<rparr>, s'))"

subsection \<open>Mongoose queries on appointments\<close>

text \<open>
  A filter object names for some paths a condition: equality with a value or one of the
  operators \<^verbatim>\<open>$ne\<close>, \<^verbatim>\<open>$nin\<close>, \<^verbatim>\<open>$gte\<close> with \<^verbatim>\<open>$lt\<close>, \<^verbatim>\<open>$gte\<close> with
  \<^verbatim>\<open>$lte\<close>. A path without a condition is \<open>None\<close>.
\<close>

datatype 'a cond =
    Eq 'a
  | Ne 'a
  | Nin "'a list"
  | Gte_Lt 'a 'a
  | Gte_Lte 'a 'a

fun holds :: "('a::linorder) cond \<Rightarrow> 'a \<Rightarrow> bool" where
  "holds (Eq v) x = (x = v)"
| "holds (Ne v) x = (x \<noteq> v)"
| "holds (Nin vs) x = (x \<notin> set vs)"
| "holds (Gte_Lt lo hi) x = (lo \<le> x \<and> x < hi)"
| "holds (Gte_Lte lo hi) x = (lo \<le> x \<and> x \<le> hi)"

text \<open>
  Mongoose casts the values of a filter to the type of the path before the query runs; an
  Invalid Date does not cast to a date and the query rejects with a cast error.
\<close>

fun cast_date :: "jsdate cond \<Rightarrow> int cond option" where
  "cast_date (Eq (Some v)) = Some (Eq v)"
| "cast_date (Ne (Some v)) = Some (Ne v)"
| "cast_date (Nin vs) = (if None \<in> set vs then None else Some (Nin (map the vs)))"
| "cast_date (Gte_Lt (Some lo) (Some hi)) = Some (Gte_Lt lo hi)"
| "cast_date (Gte_Lte (Some lo) (Some hi)) = Some (Gte_Lte lo hi)"
| "cast_date _ = None"

record filters =
  f_id :: "nat cond option"
  f_practiceId :: "nat option"
  f_patientId :: "nat option"
  f_providerId :: "nat option"
  f_status :: "string cond option"
  f_appointmentDate :: "jsdate cond option"
  f_startTime :: "string option"

definition no_filters :: filters where
  "no_filters = \<lparr>f_id = None, f_practiceId = None, f_patientId = None, f_providerId = None,
                 f_status = None, f_appointmentDate = None, f_startTime = None\<rparr>"

definition castable :: "filters \<Rightarrow> bool" where
  "castable f = (case f_appointmentDate f of None \<Rightarrow> True | Some c \<Rightarrow> cast_date c \<noteq> None)"

definition on_path :: "'c option \<Rightarrow> ('c \<Rightarrow> bool) \<Rightarrow> bool" where
  "on_path c p = (case c of None \<Rightarrow> True | Some v \<Rightarrow> p v)"

definition matches :: "filters \<Rightarrow> appointment \<Rightarrow> bool" where
  "matches f a =
     (on_path (f_id f) (\<lambda>c. holds c (oid a)) \<and>
      on_path (f_practiceId f) (\<lambda>v. practiceId a = v) \<and>
      on_path (f_patientId f) (\<lambda>v. patientId a = v) \<and>
      on_path (f_providerId f) (\<lambda>v. providerId a = v) \<and>
      on_path (f_status f) (\<lambda>c. holds c (status a)) \<and>
      on_path (f_appointmentDate f)
        (\<lambda>c. case cast_date c of None \<Rightarrow> False | Some c' \<Rightarrow> holds c' (appointmentDate a)) \<and>
      on_path (f_startTime f) (\<lambda>v. startTime a = v))"

definition query :: "filters \<Rightarrow> (appointment list \<Rightarrow> 'a) \<Rightarrow> 'a io" where
  "query f k = (\<lambda>s. if castable f then (Inr (k (filter (matches f) (appointments s))), s)
                     else (Inl CastError, s))"

definition findById :: "('a doc_scheme) list \<Rightarrow> nat \<Rightarrow> ('a doc_scheme) option" where
  "findById coll i = find (\<lambda>d. oid d = i) coll"

definition findOne :: "appointment list \<Rightarrow> appointment option" where
  "findOne xs = (case xs of [] \<Rightarrow> None | x # _ \<Rightarrow> Some x)"

subsection \<open>DELETE /:id\<close>

text \<open>
  \<^verbatim>\<open>req.params.id\<close> is the string of the URL. Mongoose casts it to the type of
  \<^verbatim>\<open>_id\<close> before the query runs; a string that does not cast makes the call reject
  with a cast error.
\<close>

definition findByIdAndDelete :: "env \<Rightarrow> string \<Rightarrow> (appointment option) io" where
  "findByIdAndDelete e raw = (\<lambda>s.
     case cast_ObjectId e raw of
       None \<Rightarrow> (Inl CastError, s)
     | Some i \<Rightarrow>
         (case findById (appointments s) i of
            None \<Rightarrow> (Inr None, s)
          | Some a \<Rightarrow> (Inr (Some a), s\<lparr>appointments := remove1 a (appointments s)\<rparr>)))"

definition delete_appointment :: "env \<Rightarrow> string \<Rightarrow> db \<Rightarrow> unit response \<times> db" where
  "delete_appointment e raw =
     try_catch ''Failed to delete appointment''
       (bind (await e Appointment_findByIdAndDelete (findByIdAndDelete e raw)) (\<lambda>appointment.
          case appointment of
            None \<Rightarrow> return (json_error 404 ''Appointment not found'')
          | Some _ \<Rightarrow> return ((json_success 200)\<lparr>message := Some ''Appointment deleted successfully''\<rparr>)))"

subsection \<open>GET /\<close>

record list_query =
  q_practiceId :: "nat option"
  q_patientId :: "nat option"
  q_providerId :: "nat option"
  q_status :: "string option"
  q_date :: "string option"
  q_startDate :: "string option"
  q_endDate :: "string option"

text \<open>
  \<^verbatim>\<open>.populate(path, fields)\<close> replaces a reference by the document it names, or by
  null when there is none. The selection of fields is left out.
\<close>

record populated =
  unpopulated :: appointment
  populated_patient :: "patient option"
  populated_provider :: "provider option"
  populated_practice :: "practice option"

definition populate :: "db \<Rightarrow> appointment \<Rightarrow> populated" where
  "populate s a =
     \<lparr>unpopulated = a,
      populated_patient = findById (patients s) (patientId a),
      populated_provider = findById (providers s) (providerId a),
      populated_practice = findById (practices s) (practiceId a)\<rparr>"

definition list_filters :: "env \<Rightarrow> list_query \<Rightarrow> filters" where
  "list_filters e q =
     (let filters = no_filters;
          filters = (case q_practiceId q of
                       Some v \<Rightarrow> filters\<lparr>f_practiceId := Some v\<rparr> | None \<Rightarrow> filters);
          filters = (case q_patientId q of
                       Some v \<Rightarrow> filters\<lparr>f_patientId := Some v\<rparr> | None \<Rightarrow> filters);
          filters = (case q_providerId q of
                       Some v \<Rightarrow> filters\<lparr>f_providerId := Some v\<rparr> | None \<Rightarrow> filters);
          filters = (case truthy (q_status q) of
                       Some v \<Rightarrow> filters\<lparr>f_status := Some (Eq v)\<rparr> | None \<Rightarrow> filters)
      in case truthy (q_date q) of
           Some date \<Rightarrow>
             (let targetDate = new_Date e date;
                  nextDay = setDate_next e targetDate
              in filters\<lparr>f_appointmentDate := Some (Gte_Lt targetDate nextDay)\<rparr>)
         | None \<Rightarrow>
             (case truthy (q_startDate q) of
                Some startDate \<Rightarrow>
                  (case truthy (q_endDate q) of
                     Some endDate \<Rightarrow>
                       filters\<lparr>f_appointmentDate :=
                         Some (Gte_Lte (new_Date e startDate) (new_Date e endDate))\<rparr>
                   | None \<Rightarrow> filters)
              | None \<Rightarrow> filters))"

text \<open>\<^verbatim>\<open>.sort({ appointmentDate: 1, startTime: 1 })\<close>\<close>

definition sort_appointments :: "appointment list \<Rightarrow> appointment list" where
  "sort_appointments xs = sort_key (\<lambda>a. (appointmentDate a, startTime a)) xs"

definition list_appointments :: "env \<Rightarrow> list_query \<Rightarrow> db \<Rightarrow> (populated list) response \<times> db" where
  "list_appointments e q =
     try_catch ''Failed to fetch appointments''
       (bind (await e Appointment_find
                (\<lambda>s. query (list_filters e q) (\<lambda>xs. map (populate s) (sort_appointments xs)) s))
          (\<lambda>appointments.
             return ((json_success 200)\<lparr>count := Some (length appointments), data := Some appointments\<rparr>)))"

subsection \<open>POST /\<close>

record create_body =
  body_practiceId :: nat
  body_patientId :: nat
  body_providerId :: nat
  body_appointmentDate :: string
  body_startTime :: string
  body_endTime :: string
  body_status :: "string option"

text \<open>
  \<^verbatim>\<open>new Appointment(req.body)\<close> gives the document a new identifier, one that no stored
  appointment has.
\<close>

definition fresh_oid :: "('a doc_scheme) list \<Rightarrow> nat" where
  "fresh_oid coll = Suc (fold max (map oid coll) 0)"

text \<open>
  Modelled from the spec: the Appointment schema, which is outside the file. Its date
  path casts the body's \<^verbatim>\<open>appointmentDate\<close> as \<^verbatim>\<open>new Date\<close> does, and a value that
  does not cast fails the validation of \<^verbatim>\<open>save()\<close>. A body without a status gets the
  first status that the spec lists, \<^verbatim>\<open>scheduled\<close>.
\<close>

definition new_Appointment :: "env \<Rightarrow> create_body \<Rightarrow> nat \<Rightarrow> appointment option" where
  "new_Appointment e b i =
     (case new_Date e (body_appointmentDate b) of
        None \<Rightarrow> None
      | Some d \<Rightarrow>
          Some \<lparr>oid = i,
                practiceId = body_practiceId b,
                patientId = body_patientId b,
                providerId = body_providerId b,
                appointmentDate = d,
                startTime = body_startTime b,
                endTime = body_endTime b,
                status = (case body_status b of None \<Rightarrow> ''scheduled'' | Some v \<Rightarrow> v)\<rparr>)"

definition save :: "appointment option \<Rightarrow> appointment io" where
  "save a = (\<lambda>s.
     case a of
       None \<Rightarrow> (Inl ValidationError, s)
     | Some a' \<Rightarrow> (Inr a', s\<lparr>appointments := appointments s @ [a']\<rparr>))"

text \<open>Saving a changed document replaces the stored document of that identifier.\<close>

definition update_doc ::
  "nat \<Rightarrow> ('a doc_scheme \<Rightarrow> 'a doc_scheme) \<Rightarrow> ('a doc_scheme) list \<Rightarrow> ('a doc_scheme) list" where
  "update_doc i f coll = map (\<lambda>d. if oid d = i then f d else d) coll"

text \<open>
  Modelled from the spec: the method \<^verbatim>\<open>updateStats(updates)\<close> of Patient, Provider and
  Practice, which is outside the file. It writes the given counters into the \<^verbatim>\<open>stats\<close>
  of the document and saves it.
\<close>

definition patient_updateStats :: "patient \<Rightarrow> (patient_stats \<Rightarrow> patient_stats) \<Rightarrow> unit io" where
  "patient_updateStats p f = (\<lambda>s.
     (Inr (), s\<lparr>patients :=
        update_doc (oid p) (\<lambda>d. d\<lparr>patient_stats := f (patient_stats d)\<rparr>) (patients s)\<rparr>))"

definition provider_updateStats :: "provider \<Rightarrow> (provider_stats \<Rightarrow> provider_stats) \<Rightarrow> unit io" where
  "provider_updateStats p f = (\<lambda>s.
     (Inr (), s\<lparr>providers :=
        update_doc (oid p) (\<lambda>d. d\<lparr>provider_stats := f (provider_stats d)\<rparr>) (providers s)\<rparr>))"

definition practice_updateStats :: "practice \<Rightarrow> (practice_stats \<Rightarrow> practice_stats) \<Rightarrow> unit io" where
  "practice_updateStats p f = (\<lambda>s.
     (Inr (), s\<lparr>practices :=
        update_doc (oid p) (\<lambda>d. d\<lparr>practice_stats := f (practice_stats d)\<rparr>) (practices s)\<rparr>))"

definition countDocuments :: "filters \<Rightarrow> nat io" where
  "countDocuments f = query f length"

definition conflict_filters :: "nat \<Rightarrow> jsdate \<Rightarrow> string \<Rightarrow> filters" where
  "conflict_filters p d t =
     no_filters\<lparr>f_providerId := Some p,
                f_appointmentDate := Some (Eq d),
                f_startTime := Some t,
                f_status := Some (Nin [''cancelled'', ''no-show''])\<rparr>"

definition create_appointment :: "env \<Rightarrow> create_body \<Rightarrow> db \<Rightarrow> appointment response \<times> db" where
  "create_appointment e b =
     try_catch ''Failed to create appointment''
       (bind (await e Practice_findById
                (\<lambda>s. return (findById (practices s) (body_practiceId b)) s)) (\<lambda>practice.
        case practice of
          None \<Rightarrow> return (json_error 404 ''Practice not found'')
        | Some practice \<Rightarrow>
        bind (await e Patient_findById
                (\<lambda>s. return (findById (patients s) (body_patientId b)) s)) (\<lambda>patient.
        case patient of
          None \<Rightarrow> return (json_error 404 ''Patient not found'')
        | Some patient \<Rightarrow>
        bind (await e Provider_findById
                (\<lambda>s. return (findById (providers s) (body_providerId b)) s)) (\<lambda>provider.
        case provider of
          None \<Rightarrow> return (json_error 404 ''Provider not found'')
        | Some provider \<Rightarrow>
        bind (await e Appointment_findOne
                (query (conflict_filters (body_providerId b)
                          (new_Date e (body_appointmentDate b)) (body_startTime b)) findOne))
          (\<lambda>conflict.
        case conflict of
          Some _ \<Rightarrow> return (json_error 400 ''Time slot already booked for this provider'')
        | None \<Rightarrow>
        bind (await e Appointment_save
                (\<lambda>s. save (new_Appointment e b (fresh_oid (appointments s))) s)) (\<lambda>appointment.
        bind (await e Patient_updateStats
                (patient_updateStats patient
                   (\<lambda>st. st\<lparr>nextAppointment := new_Date e (body_appointmentDate b)\<rparr>))) (\<lambda>_.
        bind (await e Appointment_countDocuments_provider
                (countDocuments
                   (no_filters\<lparr>f_providerId := Some (body_providerId b),
                               f_status := Some (Ne ''cancelled'')\<rparr>))) (\<lambda>n.
        bind (await e Provider_updateStats
                (provider_updateStats provider
                   (\<lambda>st. st\<lparr>provider_totalAppointments := n\<rparr>))) (\<lambda>_.
        bind (await e Appointment_countDocuments_practice
                (countDocuments (no_filters\<lparr>f_practiceId := Some (body_practiceId b)\<rparr>))) (\<lambda>m.
        bind (await e Practice_updateStats
                (practice_updateStats practice
                   (\<lambda>st. st\<lparr>practice_totalAppointments := m\<rparr>))) (\<lambda>_.
        return ((json_success 201)
                  \<lparr>message := Some ''Appointment created successfully'',
                   data := Some appointment\<rparr>))))))))))))"

subsection \<open>POST /:id/reschedule\<close>

record reschedule_body =
  newDate :: string
  newStartTime :: string
  newEndTime :: string
  reason :: string

text \<open>
  Modelled from the spec: the method \<^verbatim>\<open>reschedule\<close> of Appointment, which is outside
  the file. It moves the appointment to the new date, start and end time and saves it;
  what it records of the reason is not described and is left out.
\<close>

definition appointment_reschedule ::
  "env \<Rightarrow> appointment \<Rightarrow> reschedule_body \<Rightarrow> appointment io" where
  "appointment_reschedule e a b = (\<lambda>s.
     case new_Date e (newDate b) of
       None \<Rightarrow> (Inl ValidationError, s)
     | Some d \<Rightarrow>
         (let a' = a\<lparr>appointmentDate := d, startTime := newStartTime b, endTime := newEndTime b\<rparr>
          in (Inr a', s\<lparr>appointments := update_doc (oid a) (\<lambda>_. a') (appointments s)\<rparr>)))"

definition reschedule_appointment ::
  "env \<Rightarrow> nat \<Rightarrow> reschedule_body \<Rightarrow> db \<Rightarrow> appointment response \<times> db" where
  "reschedule_appointment e i b =
     try_catch ''Failed to reschedule appointment''
       (bind (await e Appointment_findById
                (\<lambda>s. return (findById (appointments s) i) s)) (\<lambda>appointment.
        case appointment of
          None \<Rightarrow> return (json_error 404 ''Appointment not found'')
        | Some appointment \<Rightarrow>
        bind (await e Appointment_findOne
                (query ((conflict_filters (providerId appointment)
                           (new_Date e (newDate b)) (newStartTime b))
                          \<lparr>f_id := Some (Ne (oid appointment))\<rparr>) findOne))
          (\<lambda>conflict.
        case conflict of
          Some _ \<Rightarrow> return (json_error 400 ''New time slot already booked'')
        | None \<Rightarrow>
        bind (await e Appointment_reschedule (appointment_reschedule e appointment b))
          (\<lambda>appointment.
        return ((json_success 200)\<lparr>message := Some ''Appointment rescheduled'',
                        data := Some appointment\<rparr>)))))"

subsection \<open>GET /available-slots/:providerId\<close>



subsection \<open>Predicates of the properties\<close>

text \<open>
  The filters of a list request other than the dates: a parameter that is given must
  equal the field of the appointment.
\<close>

definition other_filters :: "list_query \<Rightarrow> appointment \<Rightarrow> bool" where
  "other_filters q a =
     ((case q_practiceId q of None \<Rightarrow> True | Some v \<Rightarrow> practiceId a = v) \<and>
      (case q_patientId q of None \<Rightarrow> True | Some v \<Rightarrow> patientId a = v) \<and>
      (case q_providerId q of None \<Rightarrow> True | Some v \<Rightarrow> providerId a = v) \<and>
      (case truthy (q_status q) of None \<Rightarrow> True | Some v \<Rightarrow> status a = v))"

text \<open>Date ascending, then start time ascending (strings compare by character code).\<close>

definition by_date_then_start :: "appointment \<Rightarrow> appointment \<Rightarrow> bool" where
  "by_date_then_start x y =
     (appointmentDate x < appointmentDate y \<or>
      (appointmentDate x = appointmentDate y \<and> startTime x \<le> startTime y))"


subsection \<open>Sample data\<close>

text \<open>
  A store with one practice, one patient and one provider, a scheduled appointment of the
  provider on 2024-01-10 at 09:00 and a cancelled one on the same day at 10:00. The
  provider does not work on Wednesdays; 2024-01-10 is a Wednesday. The server runs in
  UTC; a date-only string is the midnight of that day in UTC.
\<close>

definition env0 :: env where
  "env0 = \<lparr>new_Date = (\<lambda>s. if s = ''2024-01-10'' then Some 1704844800000
                           else if s = ''2024-01-11'' then Some 1704931200000 else None),
           localTZA = (\<lambda>_ _. 0),
           cast_ObjectId = (\<lambda>s. if s = ''000000000000000000000001'' then Some 1
                                else if s = ''000000000000000000000005'' then Some 5
                                else None),
           rejects = (\<lambda>_. False)\<rparr>"

definition appt1 :: appointment where
  "appt1 = \<lparr>oid = 1, practiceId = 1, patientId = 1, providerId = 1,
            appointmentDate = 1704844800000, startTime = ''09:00'', endTime = ''09:30'',
            status = ''scheduled''\<rparr>"

definition appt2 :: appointment where
  "appt2 = \<lparr>oid = 2, practiceId = 1, patientId = 1, providerId = 1,
            appointmentDate = 1704844800000, startTime = ''10:00'', endTime = ''10:30'',
            status = ''cancelled''\<rparr>"

definition patient1 :: patient where
  "patient1 = \<lparr>oid = 1, patient_stats = \<lparr>nextAppointment = None, cancelledAppointments = 0\<rparr>\<rparr>"

definition provider1 :: provider where
  "provider1 = \<lparr>oid = 1, fullName = ''Dr. P1'',
                schedule = [''wednesday'' \<mapsto> \<lparr>available = False\<rparr>,
                            ''thursday'' \<mapsto> \<lparr>available = True\<rparr>],
                provider_stats = \<lparr>provider_totalAppointments = 0\<rparr>\<rparr>"

definition practice1 :: practice where
  "practice1 = \<lparr>oid = 1, practice_stats = \<lparr>practice_totalAppointments = 0\<rparr>\<rparr>"

definition db0 :: db where
  "db0 = \<lparr>appointments = [appt1, appt2], patients = [patient1], providers = [provider1],
          practices = [practice1]\<rparr>"

text \<open>A request for the slot of the scheduled appointment, and one for the cancelled slot.\<close>

definition body0 :: create_body where
  "body0 = \<lparr>body_practiceId = 1, body_patientId = 1, body_providerId = 1,
            body_appointmentDate = ''2024-01-10'', body_startTime = ''09:00'',
            body_endTime = ''09:30'', body_status = None\<rparr>"

definition body1 :: create_body where
  "body1 = body0\<lparr>body_startTime := ''10:00'', body_endTime := ''10:30''\<rparr>"

text \<open>The appointment that the second request creates, and an environment in which the
  update of the patient's statistics rejects.\<close>

definition appt3 :: appointment where
  "appt3 = \<lparr>oid = 3, practiceId = 1, patientId = 1, providerId = 1,
            appointmentDate = 1704844800000, startTime = ''10:00'', endTime = ''10:30'',
            status = ''scheduled''\<rparr>"

definition env1 :: env where
  "env1 = env0\<lparr>rejects := (\<lambda>c. c = Patient_updateStats)\<rparr>"

text \<open>
  A request to move an appointment to 2024-01-10 at 09:00, a store that lists an
  appointment of 2024-01-11 first, and list requests: by date, by range, and with a start
  date only.
\<close>

definition body2 :: reschedule_body where
  "body2 = \<lparr>newDate = ''2024-01-10'', newStartTime = ''09:00'', newEndTime = ''09:30'',
            reason = ''patient asked''\<rparr>"

definition appt4 :: appointment where
  "appt4 = \<lparr>oid = 4, practiceId = 1, patientId = 1, providerId = 1,
            appointmentDate = 1704931200000, startTime = ''08:00'', endTime = ''08:30'',
            status = ''scheduled''\<rparr>"

definition db1 :: db where
  "db1 = db0\<lparr>appointments := [appt4, appt2, appt1]\<rparr>"

definition query0 :: list_query where
  "query0 = \<lparr>q_practiceId = None, q_patientId = None, q_providerId = Some 1, q_status = None,
             q_date = None, q_startDate = None, q_endDate = None\<rparr>"

definition query_date :: list_query where
  "query_date = query0\<lparr>q_date := Some ''2024-01-10''\<rparr>"

definition query_range :: list_query where
  "query_range = query0\<lparr>q_startDate := Some ''2024-01-10'', q_endDate := Some ''2024-01-11''\<rparr>"

definition query_start :: list_query where
  "query_start = query0\<lparr>q_startDate := Some ''2024-01-11''\<rparr>"




text \<open>
  A server whose zone is five hours behind UTC until 2024-03-10 07:00 UTC (02:00 local
  time) and four hours behind from then on, a store with one appointment on 2024-03-10 at
  23:30 UTC, and the list request for that date.
\<close>

definition env_dst :: env where
  "env_dst = \<lparr>new_Date = (\<lambda>s. if s = ''2024-03-10'' then Some 1710028800000 else None),
              localTZA = (\<lambda>t isUTC.
                 if isUTC then (if t < 1710054000000 then - 18000000 else - 14400000)
                 else (if t < 1710036000000 then - 18000000 else - 14400000)),
              cast_ObjectId = (\<lambda>_. None),
              rejects = (\<lambda>_. False)\<rparr>"

definition appt5 :: appointment where
  "appt5 = \<lparr>oid = 5, practiceId = 1, patientId = 1, providerId = 1,
            appointmentDate = 1710113400000, startTime = ''19:30'', endTime = ''20:00'',
            status = ''scheduled''\<rparr>"

definition db_dst :: db where
  "db_dst = db0\<lparr>appointments := [appt5]\<rparr>"

definition query_dst :: list_query where
  "query_dst = query0\<lparr>q_date := Some ''2024-03-10''\<rparr>"

text \<open>
  The last day of the range of time values, 8.64e15 ms after the epoch, an appointment
  at that time value, and the list request for that date.
\<close>

definition env_max :: env where
  "env_max = env0\<lparr>new_Date :=
     (\<lambda>s. if s = ''+275760-09-13'' then Some 8640000000000000 else None)\<rparr>"

definition appt6 :: appointment where
  "appt6 = \<lparr>oid = 6, practiceId = 1, patientId = 1, providerId = 1,
            appointmentDate = 8640000000000000, startTime = ''00:00'', endTime = ''00:30'',
            status = ''scheduled''\<rparr>"

definition db_max :: db where
  "db_max = db0\<lparr>appointments := [appt6]\<rparr>"

definition query_max :: list_query where
  "query_max = query0\<lparr>q_date := Some ''+275760-09-13''\<rparr>"

lemmas sample_defs =
  env0_def appt1_def appt2_def patient1_def provider1_def practice1_def db0_def
  body0_def body1_def

section \<open>Properties\<close>

subsection \<open>Store and query lemmas\<close>

lemmas io_defs = return_def throw_def bind_def await_def try_catch_def

lemma findById_None_iff: "findById coll i = None \<longleftrightarrow> i \<notin> oid ` set coll"
  by (auto simp: findById_def find_None_iff)

lemma findById_SomeD: "findById coll i = Some a \<Longrightarrow> a \<in> set coll \<and> oid a = i"
  by (auto simp: findById_def find_Some_iff)

lemma findById_present: "i \<in> oid ` set coll \<Longrightarrow> \<exists>a. findById coll i = Some a"
  using findById_None_iff [of coll i] by (cases "findById coll i") auto

lemma castable_conflict_filters [simp]:
  "castable (conflict_filters p (Some d) t)"
  "castable ((conflict_filters p (Some d) t)\<lparr>f_id := c\<rparr>)"
  "\<not> castable (conflict_filters p None t)"
  by (simp_all add: castable_def conflict_filters_def no_filters_def)

lemma matches_conflict_filters:
  "matches (conflict_filters p (Some d) t) a \<longleftrightarrow>
     providerId a = p \<and> appointmentDate a = d \<and> startTime a = t \<and>
     status a \<noteq> ''cancelled'' \<and> status a \<noteq> ''no-show''"
  by (auto simp: matches_def conflict_filters_def no_filters_def on_path_def)

lemma matches_conflict_filters_id:
  "matches ((conflict_filters p (Some d) t)\<lparr>f_id := Some (Ne i)\<rparr>) a \<longleftrightarrow>
     oid a \<noteq> i \<and> providerId a = p \<and> appointmentDate a = d \<and> startTime a = t \<and>
     status a \<noteq> ''cancelled'' \<and> status a \<noteq> ''no-show''"
  by (auto simp: matches_def conflict_filters_def no_filters_def on_path_def)

lemma findOne_filter_None: "findOne (filter P xs) = None \<longleftrightarrow> (\<forall>x \<in> set xs. \<not> P x)"
proof -
  have "findOne (filter P xs) = None \<longleftrightarrow> filter P xs = []"
    by (simp add: findOne_def split: list.splits)
  then show ?thesis by (simp add: filter_empty_conv)
qed

lemma findOne_filter_Some: "x \<in> set xs \<Longrightarrow> P x \<Longrightarrow> \<exists>y. findOne (filter P xs) = Some y"
  using findOne_filter_None [of P xs] by (cases "findOne (filter P xs)") auto

lemma oid_remove1_distinct:
  "distinct (map oid coll) \<Longrightarrow> a \<in> set coll \<Longrightarrow> oid a \<notin> oid ` set (remove1 a coll)"
  by (auto simp: distinct_map inj_on_def)

lemma findById_update_doc:
  assumes "\<And>d. oid (f d) = oid d" "findById coll i = Some x"
  shows "findById (update_doc i f coll) i = Some (f x)"
  using assms(2) by (induction coll) (auto simp: findById_def update_doc_def assms(1))

lemma count_provider_filters:
  "castable (no_filters\<lparr>f_providerId := Some p, f_status := Some (Ne ''cancelled'')\<rparr>)"
  "matches (no_filters\<lparr>f_providerId := Some p, f_status := Some (Ne ''cancelled'')\<rparr>) a \<longleftrightarrow>
     providerId a = p \<and> status a \<noteq> ''cancelled''"
  by (auto simp: castable_def matches_def no_filters_def on_path_def)

lemma count_practice_filters:
  "castable (no_filters\<lparr>f_practiceId := Some p\<rparr>)"
  "matches (no_filters\<lparr>f_practiceId := Some p\<rparr>) a \<longleftrightarrow> practiceId a = p"
  by (auto simp: castable_def matches_def no_filters_def on_path_def)

lemma try_catch_InrI:
  assumes "try_catch l m s = (r, s')" "res_status r \<noteq> 500"
  shows "m s = (Inr r, s')"
  using assms by (auto simp: try_catch_def json_error_def split: prod.splits sum.splits)

lemma bind_InrE:
  assumes "bind m f s = (Inr r, s')"
  obtains v s1 where "m s = (Inr v, s1)" "f v s1 = (Inr r, s')"
  using assms by (auto simp: bind_def split: prod.splits sum.splits)

lemma await_InrE:
  assumes "await e c m s = (Inr v, s')"
  obtains "\<not> rejects e c" "m s = (Inr v, s')"
  using assms by (auto simp: await_def throw_def split: if_splits)

lemma return_Inr: "(return x s = (Inr y, s')) = (x = y \<and> s = s')"
  unfolding return_def by (rule iffI) (simp_all only: prod.inject sum.inject)

lemma query_InrE:
  assumes "query f k s = (Inr v, s')"
  obtains "castable f" "v = k (filter (matches f) (appointments s))" "s' = s"
proof (cases "castable f")
  case True
  with assms have "v = k (filter (matches f) (appointments s))" "s' = s"
    by (auto simp: query_def)
  with True that show ?thesis by blast
next
  case False
  with assms show ?thesis by (simp add: query_def)
qed

lemma save_InrE:
  assumes "save x s = (Inr v, s')"
  obtains "x = Some v" "s' = s\<lparr>appointments := appointments s @ [v]\<rparr>"
  using assms by (auto simp: save_def split: option.splits)

lemma patient_updateStats_InrE:
  assumes "patient_updateStats p f s = (Inr v, s')"
  obtains "s' = s\<lparr>patients :=
     update_doc (oid p) (\<lambda>d. d\<lparr>patient_stats := f (patient_stats d)\<rparr>) (patients s)\<rparr>"
  using assms by (auto simp: patient_updateStats_def)

lemma provider_updateStats_InrE:
  assumes "provider_updateStats p f s = (Inr v, s')"
  obtains "s' = s\<lparr>providers :=
     update_doc (oid p) (\<lambda>d. d\<lparr>provider_stats := f (provider_stats d)\<rparr>) (providers s)\<rparr>"
  using assms by (auto simp: provider_updateStats_def)

lemma practice_updateStats_InrE:
  assumes "practice_updateStats p f s = (Inr v, s')"
  obtains "s' = s\<lparr>practices :=
     update_doc (oid p) (\<lambda>d. d\<lparr>practice_stats := f (practice_stats d)\<rparr>) (practices s)\<rparr>"
  using assms by (auto simp: practice_updateStats_def)

lemma countDocuments_InrE:
  assumes "countDocuments f s = (Inr v, s')"
  obtains "castable f" "v = length (filter (matches f) (appointments s))" "s' = s"
  using assms unfolding countDocuments_def by (rule query_InrE)

lemma castable_conflict_filtersD:
  "castable (conflict_filters p d t) \<Longrightarrow> \<exists>d'. d = Some d'"
  by (cases d) simp_all

lemma create_201D:
  assumes "create_appointment e b s = (r, s')" "res_status r = 201"
  shows "\<exists>practice patient provider a'.
     findById (practices s) (body_practiceId b) = Some practice \<and>
     findById (patients s) (body_patientId b) = Some patient \<and>
     findById (providers s) (body_providerId b) = Some provider \<and>
     castable (conflict_filters (body_providerId b) (new_Date e (body_appointmentDate b))
       (body_startTime b)) \<and>
     new_Appointment e b (fresh_oid (appointments s)) = Some a' \<and>
     r = (json_success 201)\<lparr>message := Some ''Appointment created successfully'',
                               data := Some a'\<rparr> \<and>
     s' = s\<lparr>appointments := appointments s @ [a'],
            patients := update_doc (oid patient)
              (\<lambda>p. p\<lparr>patient_stats := (patient_stats p)\<lparr>nextAppointment :=
                 new_Date e (body_appointmentDate b)\<rparr>\<rparr>) (patients s),
            providers := update_doc (oid provider)
              (\<lambda>p. p\<lparr>provider_stats := (provider_stats p)\<lparr>provider_totalAppointments :=
                 length (filter (matches (no_filters\<lparr>f_providerId := Some (body_providerId b),
                                   f_status := Some (Ne ''cancelled'')\<rparr>))
                   (appointments s @ [a']))\<rparr>\<rparr>) (providers s),
            practices := update_doc (oid practice)
              (\<lambda>p. p\<lparr>practice_stats := (practice_stats p)\<lparr>practice_totalAppointments :=
                 length (filter (matches (no_filters\<lparr>f_practiceId := Some (body_practiceId b)\<rparr>))
                   (appointments s @ [a']))\<rparr>\<rparr>)
              (practices s)\<rparr>"
proof -
  from assms have "res_status r \<noteq> 500" by simp
  from try_catch_InrI [OF assms(1) [unfolded create_appointment_def] this]
  show ?thesis
    using assms(2)
    by (auto split: option.splits simp: json_error_def return_Inr
        simp del: filter_append
        elim!: bind_InrE await_InrE query_InrE save_InrE patient_updateStats_InrE
          provider_updateStats_InrE practice_updateStats_InrE countDocuments_InrE)
qed

lemma matches_count_provider:
  "matches (no_filters\<lparr>f_providerId := Some p, f_status := Some (Ne ''cancelled'')\<rparr>) =
     (\<lambda>a. providerId a = p \<and> status a \<noteq> ''cancelled'')"
  by (rule ext) (simp add: count_provider_filters)

lemma matches_count_practice:
  "matches (no_filters\<lparr>f_practiceId := Some p\<rparr>) = (\<lambda>a. practiceId a = p)"
  by (rule ext) (simp add: count_practice_filters)

lemma fold_max_ge: "(x::nat) \<in> set xs \<Longrightarrow> x \<le> fold max xs a"
  by (metis List.finite_set Max.set_eq_fold Max_ge list.set_intros(2))

lemma fresh_oid_fresh: "fresh_oid coll \<notin> oid ` set coll"
proof
  assume "fresh_oid coll \<in> oid ` set coll"
  then have "fresh_oid coll \<in> set (map oid coll)" by simp
  then have "fresh_oid coll \<le> fold max (map oid coll) 0" by (rule fold_max_ge)
  then show False by (simp add: fresh_oid_def)
qed

lemma create_success_run:
  assumes res: "\<forall>c. \<not> rejects e c"
    and f: "findById (practices s) (body_practiceId b) = Some practice"
      "findById (patients s) (body_patientId b) = Some patient"
      "findById (providers s) (body_providerId b) = Some provider"
    and d: "new_Date e (body_appointmentDate b) = Some d"
    and free: "\<forall>a \<in> set (appointments s).
        \<not> matches (conflict_filters (body_providerId b) (Some d) (body_startTime b)) a"
    and a': "new_Appointment e b (fresh_oid (appointments s)) = Some a'"
  shows "fst (create_appointment e b s) =
           (json_success 201)\<lparr>message := Some ''Appointment created successfully'',
                               data := Some a'\<rparr>"
    and "appointments (snd (create_appointment e b s)) = appointments s @ [a']"
proof -
  have "findOne (filter (matches (conflict_filters (body_providerId b) (Some d) (body_startTime b)))
       (appointments s)) = None"
    using free by (subst findOne_filter_None) simp
  with res f d a' show "fst (create_appointment e b s) =
           (json_success 201)\<lparr>message := Some ''Appointment created successfully'',
                               data := Some a'\<rparr>"
    and "appointments (snd (create_appointment e b s)) = appointments s @ [a']"
    by (simp_all add: create_appointment_def io_defs query_def save_def countDocuments_def
        patient_updateStats_def provider_updateStats_def practice_updateStats_def
        count_provider_filters count_practice_filters)
qed

lemma sample_create:
  "fst (create_appointment env0 body1 db0) =
     (json_success 201)\<lparr>message := Some ''Appointment created successfully'',
                         data := Some appt3\<rparr>"
  "appointments (snd (create_appointment env0 body1 db0)) = [appt1, appt2, appt3]"
  "map patient_stats (patients (snd (create_appointment env0 body1 db0))) =
     [\<lparr>nextAppointment = Some 1704844800000, cancelledAppointments = 0\<rparr>]"
  "map provider_stats (providers (snd (create_appointment env0 body1 db0))) =
     [\<lparr>provider_totalAppointments = 2\<rparr>]"
  "map practice_stats (practices (snd (create_appointment env0 body1 db0))) =
     [\<lparr>practice_totalAppointments = 3\<rparr>]"
  by (simp_all add: create_appointment_def io_defs query_def save_def countDocuments_def
      patient_updateStats_def provider_updateStats_def practice_updateStats_def
      findById_def findOne_def castable_def matches_def on_path_def conflict_filters_def
      no_filters_def new_Appointment_def fresh_oid_def update_doc_def sample_defs appt3_def)

lemma sample_create_failing:
  "fst (create_appointment env1 body1 db0) =
     (json_error 500 ''Failed to create appointment'')
       \<lparr>details := Some (Rejected Patient_updateStats)\<rparr>"
  "appointments (snd (create_appointment env1 body1 db0)) = [appt1, appt2, appt3]"
  by (simp_all add: create_appointment_def io_defs query_def save_def countDocuments_def
      patient_updateStats_def provider_updateStats_def practice_updateStats_def
      findById_def findOne_def castable_def matches_def on_path_def conflict_filters_def
      no_filters_def new_Appointment_def fresh_oid_def update_doc_def sample_defs appt3_def
      env1_def)

lemma getDay_less: "getDay e t < 7"
  by (simp add: getDay_def msPerDay_def nat_less_iff)


lemma setDate_next_Some:
  "setDate_next e (Some d) =
     (let n = d + localTZA e d True + 86400000 - localTZA e (d + localTZA e d True + 86400000) False
      in if \<bar>n\<bar> \<le> 8640000000000000 then Some n else None)"
  by (simp add: setDate_next_def TimeClip_def UTC_def LocalTime_def msPerDay_def Let_def)

lemma list_filters_eq:
  "list_filters e q =
     \<lparr>f_id = None, f_practiceId = q_practiceId q, f_patientId = q_patientId q,
      f_providerId = q_providerId q, f_status = map_option Eq (truthy (q_status q)),
      f_appointmentDate =
        (case truthy (q_date q) of
           Some date \<Rightarrow> Some (Gte_Lt (new_Date e date) (setDate_next e (new_Date e date)))
         | None \<Rightarrow>
             (case truthy (q_startDate q) of
                Some startDate \<Rightarrow>
                  (case truthy (q_endDate q) of
                     Some endDate \<Rightarrow> Some (Gte_Lte (new_Date e startDate) (new_Date e endDate))
                   | None \<Rightarrow> None)
              | None \<Rightarrow> None)),
      f_startTime = None\<rparr>"
proof -
  define f1 where "f1 = (case q_practiceId q of
      Some v \<Rightarrow> no_filters\<lparr>f_practiceId := Some v\<rparr> | None \<Rightarrow> no_filters)"
  define f2 where "f2 = (case q_patientId q of
      Some v \<Rightarrow> f1\<lparr>f_patientId := Some v\<rparr> | None \<Rightarrow> f1)"
  define f3 where "f3 = (case q_providerId q of
      Some v \<Rightarrow> f2\<lparr>f_providerId := Some v\<rparr> | None \<Rightarrow> f2)"
  define f4 where "f4 = (case truthy (q_status q) of
      Some v \<Rightarrow> f3\<lparr>f_status := Some (Eq v)\<rparr> | None \<Rightarrow> f3)"
  have 1: "f1 = no_filters\<lparr>f_practiceId := q_practiceId q\<rparr>"
    by (simp add: f1_def no_filters_def split: option.splits)
  have 2: "f2 = f1\<lparr>f_patientId := q_patientId q\<rparr>"
    by (simp add: f2_def 1 no_filters_def split: option.splits)
  have 3: "f3 = f2\<lparr>f_providerId := q_providerId q\<rparr>"
    by (simp add: f3_def 2 1 no_filters_def split: option.splits)
  have 4: "f4 = f3\<lparr>f_status := map_option Eq (truthy (q_status q))\<rparr>"
    by (simp add: f4_def 3 2 1 no_filters_def split: option.splits)
  have "list_filters e q =
      (case truthy (q_date q) of
           Some date \<Rightarrow>
             f4\<lparr>f_appointmentDate :=
                 Some (Gte_Lt (new_Date e date) (setDate_next e (new_Date e date)))\<rparr>
         | None \<Rightarrow>
             (case truthy (q_startDate q) of
                Some startDate \<Rightarrow>
                  (case truthy (q_endDate q) of
                     Some endDate \<Rightarrow>
                       f4\<lparr>f_appointmentDate :=
                         Some (Gte_Lte (new_Date e startDate) (new_Date e endDate))\<rparr>
                   | None \<Rightarrow> f4)
              | None \<Rightarrow> f4))"
    unfolding list_filters_def f4_def f3_def f2_def f1_def Let_def ..
  then show ?thesis
    by (simp add: 4 3 2 1 no_filters_def split: option.splits)
qed

lemma matches_list_filters_date:
  assumes "truthy (q_date q) = Some D" "new_Date e D = Some d" "setDate_next e (Some d) = Some n"
  shows "castable (list_filters e q)"
    and "matches (list_filters e q) a \<longleftrightarrow>
      other_filters q a \<and> d \<le> appointmentDate a \<and> appointmentDate a < n"
  using assms
  by (auto simp: list_filters_eq castable_def matches_def on_path_def other_filters_def
      split: option.splits)

lemma not_castable_list_filters_date:
  assumes "truthy (q_date q) = Some D" "new_Date e D = Some d" "setDate_next e (Some d) = None"
  shows "\<not> castable (list_filters e q)"
  using assms by (simp add: list_filters_eq castable_def)

lemma matches_list_filters_range:
  assumes "truthy (q_date q) = None" "truthy (q_startDate q) = Some A"
    "truthy (q_endDate q) = Some B" "new_Date e A = Some lo" "new_Date e B = Some hi"
  shows "castable (list_filters e q)"
    and "matches (list_filters e q) a \<longleftrightarrow>
      other_filters q a \<and> lo \<le> appointmentDate a \<and> appointmentDate a \<le> hi"
  using assms
  by (auto simp: list_filters_eq castable_def matches_def on_path_def other_filters_def
      split: option.splits)

lemma matches_list_filters_none:
  assumes "truthy (q_date q) = None"
    "truthy (q_startDate q) = None \<or> truthy (q_endDate q) = None"
  shows "castable (list_filters e q)"
    and "matches (list_filters e q) a \<longleftrightarrow> other_filters q a"
  using assms
  by (auto simp: list_filters_eq castable_def matches_def on_path_def other_filters_def
      split: option.splits)

lemma sorted_sort_appointments: "sorted_wrt by_date_then_start (sort_appointments xs)"
proof -
  have "sorted (map (\<lambda>a. (appointmentDate a, startTime a)) (sort_appointments xs))"
    by (simp add: sort_appointments_def)
  then have "sorted_wrt (\<lambda>x y. (appointmentDate x, startTime x) \<le> (appointmentDate y, startTime y))
     (sort_appointments xs)"
    by (simp add: sorted_map)
  then show ?thesis
    by (rule sorted_wrt_mono_rel [rotated])
       (auto simp: by_date_then_start_def less_eq_prod_def)
qed

lemma mset_sort_appointments: "mset (sort_appointments xs) = mset xs"
  by (simp add: sort_appointments_def)

lemma list_appointments_run:
  assumes "\<not> rejects e Appointment_find" "castable (list_filters e q)"
  shows "list_appointments e q s =
    ((json_success 200)
       \<lparr>count := Some (length (filter (matches (list_filters e q)) (appointments s))),
        data := Some (map (populate s)
          (sort_appointments (filter (matches (list_filters e q)) (appointments s))))\<rparr>, s)"
  using assms
  by (simp add: list_appointments_def io_defs query_def sort_appointments_def)

lemmas list_run_defs =
  list_appointments_def io_defs query_def list_filters_eq castable_def matches_def
  on_path_def setDate_next_def TimeClip_def UTC_def LocalTime_def msPerDay_def truthy_def
  query0_def db1_def sample_defs appt4_def

lemma sample_list:
  "list_appointments env0 query_date db1 =
     ((json_success 200)\<lparr>count := Some 2, data := Some (map (populate db1) [appt1, appt2])\<rparr>,
      db1)"
  "list_appointments env0 query_range db1 =
     ((json_success 200)\<lparr>count := Some 3,
                         data := Some (map (populate db1) [appt1, appt2, appt4])\<rparr>, db1)"
  "list_appointments env0 query_start db1 =
     ((json_success 200)\<lparr>count := Some 3,
                         data := Some (map (populate db1) [appt1, appt2, appt4])\<rparr>, db1)"
  by (simp_all add: list_run_defs query_date_def query_range_def query_start_def
      sort_appointments_def)

lemma list_appointments_cast_error:
  assumes "\<not> rejects e Appointment_find" "\<not> castable (list_filters e q)"
  shows "list_appointments e q s =
    ((json_error 500 ''Failed to fetch appointments'')\<lparr>details := Some CastError\<rparr>, s)"
  using assms
  by (simp add: list_appointments_def io_defs query_def)

lemma sample_list_dst:
  "list_appointments env_dst query_dst db_dst =
     ((json_success 200)\<lparr>count := Some 0, data := Some []\<rparr>, db_dst)"
  by (simp add: list_appointments_def io_defs query_def list_filters_eq castable_def
      matches_def on_path_def setDate_next_def TimeClip_def UTC_def LocalTime_def msPerDay_def
      truthy_def query0_def query_dst_def db_dst_def env_dst_def appt5_def
      sort_appointments_def)

lemma sample_list_max:
  "list_appointments env_max query_max db_max =
     ((json_error 500 ''Failed to fetch appointments'')\<lparr>details := Some CastError\<rparr>, db_max)"
  by (simp add: list_appointments_def io_defs query_def list_filters_eq castable_def
      setDate_next_def TimeClip_def UTC_def LocalTime_def msPerDay_def
      truthy_def query0_def query_max_def env_max_def env0_def)

subsection \<open>Deleting\<close>

text \<open>
  C9, as amended. When the store call resolves: for a string that casts to an identifier
  that no stored appointment has, DELETE answers 404 with \<^verbatim>\<open>Appointment not found\<close>
  and leaves the store as it is; for a string that does not cast to an identifier (and so
  names no stored appointment either) it answers 500 with
  \<^verbatim>\<open>Failed to delete appointment\<close>; for an identifier that is present, the appointment
  found is removed and the answer is the success response. Identifiers being unique, none
  with that identifier is left.
\<close>

theorem delete_appointment_by_id:
  assumes "\<not> rejects e Appointment_findByIdAndDelete"
  shows "(cast_ObjectId e raw = Some i \<and> i \<notin> oid ` set (appointments s) \<longrightarrow>
            delete_appointment e raw s = (json_error 404 ''Appointment not found'', s)) \<and>
         (cast_ObjectId e raw = None \<longrightarrow>
            delete_appointment e raw s =
              ((json_error 500 ''Failed to delete appointment'')\<lparr>details := Some CastError\<rparr>,
               s)) \<and>
         (cast_ObjectId e raw = Some i \<and> i \<in> oid ` set (appointments s) \<longrightarrow>
            (\<exists>a \<in> set (appointments s). oid a = i \<and>
               delete_appointment e raw s =
                 ((json_success 200)\<lparr>message := Some ''Appointment deleted successfully''\<rparr>,
                  s\<lparr>appointments := remove1 a (appointments s)\<rparr>)) \<and>
            (distinct (map oid (appointments s)) \<longrightarrow>
               i \<notin> oid ` set (appointments (snd (delete_appointment e raw s)))))"
proof (intro conjI impI; (elim conjE)?)
  assume "cast_ObjectId e raw = Some i" "i \<notin> oid ` set (appointments s)"
  moreover from this have "findById (appointments s) i = None"
    by (simp add: findById_None_iff)
  ultimately show "delete_appointment e raw s = (json_error 404 ''Appointment not found'', s)"
    using assms by (simp add: delete_appointment_def findByIdAndDelete_def io_defs)
next
  assume "cast_ObjectId e raw = None"
  then show "delete_appointment e raw s =
      ((json_error 500 ''Failed to delete appointment'')\<lparr>details := Some CastError\<rparr>, s)"
    using assms by (simp add: delete_appointment_def findByIdAndDelete_def io_defs)
next
  assume c: "cast_ObjectId e raw = Some i" and "i \<in> oid ` set (appointments s)"
  then obtain a where a: "findById (appointments s) i = Some a"
    using findById_None_iff [of "appointments s" i] by (cases "findById (appointments s) i") auto
  have del: "delete_appointment e raw s =
      ((json_success 200)\<lparr>message := Some ''Appointment deleted successfully''\<rparr>,
       s\<lparr>appointments := remove1 a (appointments s)\<rparr>)"
    using assms a c by (simp add: delete_appointment_def findByIdAndDelete_def io_defs)
  from a have mem: "a \<in> set (appointments s)" "oid a = i" by (auto dest: findById_SomeD)
  with del show "\<exists>a \<in> set (appointments s). oid a = i \<and>
      delete_appointment e raw s =
        ((json_success 200)\<lparr>message := Some ''Appointment deleted successfully''\<rparr>,
         s\<lparr>appointments := remove1 a (appointments s)\<rparr>)" by blast
  assume "distinct (map oid (appointments s))"
  with mem del show "i \<notin> oid ` set (appointments (snd (delete_appointment e raw s)))"
    using oid_remove1_distinct [of "appointments s" a] by simp
qed

theorem delete_appointment_by_id_witness:
  "\<not> rejects env0 Appointment_findByIdAndDelete \<and>
   cast_ObjectId env0 ''000000000000000000000005'' = Some 5 \<and>
   5 \<notin> oid ` set (appointments db0) \<and>
   delete_appointment env0 ''000000000000000000000005'' db0 =
     (json_error 404 ''Appointment not found'', db0) \<and>
   cast_ObjectId env0 ''abc'' = None \<and>
   delete_appointment env0 ''abc'' db0 =
     ((json_error 500 ''Failed to delete appointment'')\<lparr>details := Some CastError\<rparr>, db0) \<and>
   cast_ObjectId env0 ''000000000000000000000001'' = Some 1 \<and>
   1 \<in> oid ` set (appointments db0) \<and>
   distinct (map oid (appointments db0)) \<and>
   1 \<notin> oid ` set (appointments
          (snd (delete_appointment env0 ''000000000000000000000001'' db0)))"
  using delete_appointment_by_id [of env0 "''000000000000000000000005''" 5 db0]
    delete_appointment_by_id [of env0 "''abc''" _ db0]
    delete_appointment_by_id [of env0 "''000000000000000000000001''" 1 db0]
  by (simp add: sample_defs)

text \<open>
  C9 as stated fails: \<^verbatim>\<open>abc\<close> is the identifier of no stored appointment, and the
  answer to \<^verbatim>\<open>DELETE /abc\<close> is 500, not 404.
\<close>

theorem delete_appointment_by_id_counterexample:
  "cast_ObjectId env0 ''abc'' = None \<and>
   list_all (\<lambda>a. cast_ObjectId env0 ''abc'' \<noteq> Some (oid a)) (appointments db0) \<and>
   \<not> rejects env0 Appointment_findByIdAndDelete \<and>
   delete_appointment env0 ''abc'' db0 =
     ((json_error 500 ''Failed to delete appointment'')\<lparr>details := Some CastError\<rparr>, db0) \<and>
   res_status (fst (delete_appointment env0 ''abc'' db0)) = 500 \<and>
   res_status (fst (delete_appointment env0 ''abc'' db0)) \<noteq> 404"
  by (simp add: sample_defs delete_appointment_def findByIdAndDelete_def io_defs
      json_error_def)

subsection \<open>Creating\<close>

text \<open>
  C1, as amended. When the practice, the patient and the provider of a create request
  exist (and the four reads resolve), and the store holds an appointment of the request's
  provider, date and start time whose status is neither \<^verbatim>\<open>cancelled\<close> nor
  \<^verbatim>\<open>no-show\<close>, the request is answered with 400 and
  \<^verbatim>\<open>Time slot already booked for this provider\<close>, and the store is unchanged.
\<close>

theorem create_conflict:
  assumes res: "\<not> rejects e Practice_findById" "\<not> rejects e Patient_findById"
      "\<not> rejects e Provider_findById" "\<not> rejects e Appointment_findOne"
    and ex: "body_practiceId b \<in> oid ` set (practices s)"
      "body_patientId b \<in> oid ` set (patients s)"
      "body_providerId b \<in> oid ` set (providers s)"
    and d: "new_Date e (body_appointmentDate b) = Some d"
    and a: "a \<in> set (appointments s)" "providerId a = body_providerId b"
      "appointmentDate a = d" "startTime a = body_startTime b"
      "status a \<noteq> ''cancelled''" "status a \<noteq> ''no-show''"
  shows "create_appointment e b s =
           (json_error 400 ''Time slot already booked for this provider'', s)"
proof -
  obtain practice patient provider where f:
    "findById (practices s) (body_practiceId b) = Some practice"
    "findById (patients s) (body_patientId b) = Some patient"
    "findById (providers s) (body_providerId b) = Some provider"
    using findById_present [OF ex(1)] findById_present [OF ex(2)] findById_present [OF ex(3)]
    by blast
  have "matches (conflict_filters (body_providerId b) (Some d) (body_startTime b)) a"
    using a by (simp add: matches_conflict_filters)
  with a(1) obtain y where
    "findOne (filter (matches (conflict_filters (body_providerId b) (Some d) (body_startTime b)))
       (appointments s)) = Some y"
    by (blast dest: findOne_filter_Some)
  with res f d show ?thesis
    by (simp add: create_appointment_def io_defs query_def)
qed

theorem create_conflict_witness:
  "\<not> rejects env0 Practice_findById \<and> \<not> rejects env0 Patient_findById \<and>
   \<not> rejects env0 Provider_findById \<and> \<not> rejects env0 Appointment_findOne \<and>
   body_practiceId body0 \<in> oid ` set (practices db0) \<and>
   body_patientId body0 \<in> oid ` set (patients db0) \<and>
   body_providerId body0 \<in> oid ` set (providers db0) \<and>
   new_Date env0 (body_appointmentDate body0) = Some 1704844800000 \<and>
   appt1 \<in> set (appointments db0) \<and> providerId appt1 = body_providerId body0 \<and>
   appointmentDate appt1 = 1704844800000 \<and> startTime appt1 = body_startTime body0 \<and>
   status appt1 \<noteq> ''cancelled'' \<and> status appt1 \<noteq> ''no-show'' \<and>
   create_appointment env0 body0 db0 =
     (json_error 400 ''Time slot already booked for this provider'', db0)"
  using create_conflict [of env0 body0 db0 1704844800000 appt1]
  by (simp add: sample_defs)

text \<open>
  C1 as stated fails: the same slot is taken, but the request names a practice that does
  not exist, and the answer is 404 \<^verbatim>\<open>Practice not found\<close>, not the 400 of a conflict.
\<close>

theorem create_conflict_counterexample:
  "appt1 \<in> set (appointments db0) \<and>
   providerId appt1 = body_providerId (body0\<lparr>body_practiceId := 7\<rparr>) \<and>
   new_Date env0 (body_appointmentDate (body0\<lparr>body_practiceId := 7\<rparr>)) =
     Some (appointmentDate appt1) \<and>
   startTime appt1 = body_startTime (body0\<lparr>body_practiceId := 7\<rparr>) \<and>
   status appt1 \<noteq> ''cancelled'' \<and> status appt1 \<noteq> ''no-show'' \<and>
   create_appointment env0 (body0\<lparr>body_practiceId := 7\<rparr>) db0 =
     (json_error 404 ''Practice not found'', db0) \<and>
   res_status (fst (create_appointment env0 (body0\<lparr>body_practiceId := 7\<rparr>) db0)) \<noteq> 400"
  by (simp add: sample_defs create_appointment_def io_defs findById_def json_error_def)

text \<open>
  C2. When every store call resolves, the practice, the patient and the provider of the
  request exist, the date parses, and every stored appointment of the request's provider,
  date and start time is \<^verbatim>\<open>cancelled\<close> or \<^verbatim>\<open>no-show\<close>, the request is answered
  with 201 and the new appointment, and the store holds it afterwards, under an
  identifier that no earlier appointment has.
\<close>

theorem create_free_slot:
  assumes res: "\<forall>c. \<not> rejects e c"
    and ex: "body_practiceId b \<in> oid ` set (practices s)"
      "body_patientId b \<in> oid ` set (patients s)"
      "body_providerId b \<in> oid ` set (providers s)"
    and d: "new_Date e (body_appointmentDate b) = Some d"
    and free: "\<forall>a \<in> set (appointments s).
        providerId a = body_providerId b \<and> appointmentDate a = d \<and>
        startTime a = body_startTime b \<longrightarrow>
        status a = ''cancelled'' \<or> status a = ''no-show''"
  shows "\<exists>a'. fst (create_appointment e b s) =
             (json_success 201)\<lparr>message := Some ''Appointment created successfully'',
                                 data := Some a'\<rparr> \<and>
           appointments (snd (create_appointment e b s)) = appointments s @ [a'] \<and>
           oid a' \<notin> oid ` set (appointments s) \<and>
           practiceId a' = body_practiceId b \<and> patientId a' = body_patientId b \<and>
           providerId a' = body_providerId b \<and> appointmentDate a' = d \<and>
           startTime a' = body_startTime b \<and> endTime a' = body_endTime b"
proof -
  obtain practice patient provider where f:
    "findById (practices s) (body_practiceId b) = Some practice"
    "findById (patients s) (body_patientId b) = Some patient"
    "findById (providers s) (body_providerId b) = Some provider"
    using findById_present [OF ex(1)] findById_present [OF ex(2)] findById_present [OF ex(3)]
    by blast
  have free': "\<forall>a \<in> set (appointments s).
      \<not> matches (conflict_filters (body_providerId b) (Some d) (body_startTime b)) a"
    using free by (auto simp: matches_conflict_filters)
  obtain a' where a': "new_Appointment e b (fresh_oid (appointments s)) = Some a'"
    using d by (simp add: new_Appointment_def)
  from a' d have fields: "oid a' = fresh_oid (appointments s)"
    "practiceId a' = body_practiceId b" "patientId a' = body_patientId b"
    "providerId a' = body_providerId b" "appointmentDate a' = d"
    "startTime a' = body_startTime b" "endTime a' = body_endTime b"
    by (auto simp: new_Appointment_def)
  show ?thesis
    using create_success_run [OF res f d free' a'] fields
      fresh_oid_fresh [of "appointments s"]
    by (intro exI [of _ a']) simp
qed

theorem create_free_slot_witness:
  "(\<forall>c. \<not> rejects env0 c) \<and>
   body_practiceId body1 \<in> oid ` set (practices db0) \<and>
   body_patientId body1 \<in> oid ` set (patients db0) \<and>
   body_providerId body1 \<in> oid ` set (providers db0) \<and>
   new_Date env0 (body_appointmentDate body1) = Some 1704844800000 \<and>
   filter (\<lambda>a. providerId a = body_providerId body1 \<and> appointmentDate a = 1704844800000 \<and>
                startTime a = body_startTime body1) (appointments db0) = [appt2] \<and>
   status appt2 = ''cancelled'' \<and>
   (\<exists>a'. fst (create_appointment env0 body1 db0) =
            (json_success 201)\<lparr>message := Some ''Appointment created successfully'',
                                data := Some a'\<rparr> \<and>
          appointments (snd (create_appointment env0 body1 db0)) = appointments db0 @ [a'] \<and>
          oid a' \<notin> oid ` set (appointments db0) \<and>
          practiceId a' = body_practiceId body1 \<and> patientId a' = body_patientId body1 \<and>
          providerId a' = body_providerId body1 \<and> appointmentDate a' = 1704844800000 \<and>
          startTime a' = body_startTime body1 \<and> endTime a' = body_endTime body1)"
  using create_free_slot [of env0 body1 db0 1704844800000]
  by (simp add: sample_defs)

text \<open>
  C5. After a create request answered with 201, the patient's statistics hold the date
  of the new appointment as next appointment, the provider's total is the number of
  stored appointments of that provider whose status is not \<^verbatim>\<open>cancelled\<close>, and the
  practice's total is the number of stored appointments of that practice, all counted in
  the store after the request.
\<close>

theorem create_updates_stats:
  assumes "create_appointment e b s = (r, s')" "res_status r = 201"
  shows "\<exists>a p v c.
     data r = Some a \<and> a \<in> set (appointments s') \<and>
     practiceId a = body_practiceId b \<and> patientId a = body_patientId b \<and>
     providerId a = body_providerId b \<and>
     new_Date e (body_appointmentDate b) = Some (appointmentDate a) \<and>
     findById (patients s') (body_patientId b) = Some p \<and>
     nextAppointment (patient_stats p) = Some (appointmentDate a) \<and>
     findById (providers s') (body_providerId b) = Some v \<and>
     provider_totalAppointments (provider_stats v) =
       length (filter (\<lambda>x. providerId x = body_providerId b \<and> status x \<noteq> ''cancelled'')
                 (appointments s')) \<and>
     findById (practices s') (body_practiceId b) = Some c \<and>
     practice_totalAppointments (practice_stats c) =
       length (filter (\<lambda>x. practiceId x = body_practiceId b) (appointments s'))"
proof -
  from create_201D [OF assms] obtain practice patient provider a' where
    f: "findById (practices s) (body_practiceId b) = Some practice"
      "findById (patients s) (body_patientId b) = Some patient"
      "findById (providers s) (body_providerId b) = Some provider"
    and c: "castable (conflict_filters (body_providerId b)
       (new_Date e (body_appointmentDate b)) (body_startTime b))"
    and a': "new_Appointment e b (fresh_oid (appointments s)) = Some a'"
    and r: "r = (json_success 201)\<lparr>message := Some ''Appointment created successfully'',
                               data := Some a'\<rparr>"
    and s': "s' = s\<lparr>appointments := appointments s @ [a'],
            patients := update_doc (oid patient)
              (\<lambda>p. p\<lparr>patient_stats := (patient_stats p)\<lparr>nextAppointment :=
                 new_Date e (body_appointmentDate b)\<rparr>\<rparr>) (patients s),
            providers := update_doc (oid provider)
              (\<lambda>p. p\<lparr>provider_stats := (provider_stats p)\<lparr>provider_totalAppointments :=
                 length (filter (matches (no_filters\<lparr>f_providerId := Some (body_providerId b),
                                   f_status := Some (Ne ''cancelled'')\<rparr>))
                   (appointments s @ [a']))\<rparr>\<rparr>) (providers s),
            practices := update_doc (oid practice)
              (\<lambda>p. p\<lparr>practice_stats := (practice_stats p)\<lparr>practice_totalAppointments :=
                 length (filter (matches (no_filters\<lparr>f_practiceId := Some (body_practiceId b)\<rparr>))
                   (appointments s @ [a']))\<rparr>\<rparr>)
              (practices s)\<rparr>"
    by blast
  from c obtain d where d: "new_Date e (body_appointmentDate b) = Some d"
    by (blast dest: castable_conflict_filtersD)
  from f have o: "oid practice = body_practiceId b" "oid patient = body_patientId b"
      "oid provider = body_providerId b"
    by (auto dest: findById_SomeD)
  from a' d have a: "appointmentDate a' = d" "practiceId a' = body_practiceId b"
      "patientId a' = body_patientId b" "providerId a' = body_providerId b"
    by (auto simp: new_Appointment_def)
  have 1: "findById (patients s') (body_patientId b) =
      Some (patient\<lparr>patient_stats := (patient_stats patient)\<lparr>nextAppointment := Some d\<rparr>\<rparr>)"
    unfolding s' using f(2) o d by (simp add: findById_update_doc)
  have 2: "findById (providers s') (body_providerId b) =
      Some (provider\<lparr>provider_stats := (provider_stats provider)\<lparr>provider_totalAppointments :=
         length (filter (\<lambda>x. providerId x = body_providerId b \<and> status x \<noteq> ''cancelled'')
                 (appointments s'))\<rparr>\<rparr>)"
    unfolding s' using f(3) o
    by (simp add: findById_update_doc matches_count_provider del: filter_append)
  have 3: "findById (practices s') (body_practiceId b) =
      Some (practice\<lparr>practice_stats := (practice_stats practice)\<lparr>practice_totalAppointments :=
         length (filter (\<lambda>x. practiceId x = body_practiceId b) (appointments s'))\<rparr>\<rparr>)"
    unfolding s' using f(1) o
    by (simp add: findById_update_doc matches_count_practice del: filter_append)
  have 4: "data r = Some a'" "a' \<in> set (appointments s')"
    by (simp_all add: r s')
  show ?thesis
    using 1 2 3 4 a d by simp
qed

theorem create_updates_stats_witness:
  "res_status (fst (create_appointment env0 body1 db0)) = 201 \<and>
   (\<exists>a p v c.
     data (fst (create_appointment env0 body1 db0)) = Some a \<and>
     a \<in> set (appointments (snd (create_appointment env0 body1 db0))) \<and>
     practiceId a = body_practiceId body1 \<and> patientId a = body_patientId body1 \<and>
     providerId a = body_providerId body1 \<and>
     new_Date env0 (body_appointmentDate body1) = Some (appointmentDate a) \<and>
     findById (patients (snd (create_appointment env0 body1 db0))) (body_patientId body1) =
       Some p \<and>
     nextAppointment (patient_stats p) = Some (appointmentDate a) \<and>
     findById (providers (snd (create_appointment env0 body1 db0))) (body_providerId body1) =
       Some v \<and>
     provider_totalAppointments (provider_stats v) =
       length (filter (\<lambda>x. providerId x = body_providerId body1 \<and> status x \<noteq> ''cancelled'')
                 (appointments (snd (create_appointment env0 body1 db0)))) \<and>
     findById (practices (snd (create_appointment env0 body1 db0))) (body_practiceId body1) =
       Some c \<and>
     practice_totalAppointments (practice_stats c) =
       length (filter (\<lambda>x. practiceId x = body_practiceId body1)
                 (appointments (snd (create_appointment env0 body1 db0)))))"
  using create_updates_stats [OF prod.collapse [symmetric], of env0 body1 db0]
  by (simp add: sample_create(1) json_success_def)



text \<open>
  C8, as amended. When the appointment has been saved and one of the calls that update
  the statistics rejects, the exception reaches the \<^verbatim>\<open>catch\<close> block: the answer is 500
  with \<^verbatim>\<open>Failed to create appointment\<close> and the rejected call as details, and the
  appointment stays in the store.
\<close>

theorem create_stats_failure:
  assumes res: "\<not> rejects e Practice_findById" "\<not> rejects e Patient_findById"
      "\<not> rejects e Provider_findById" "\<not> rejects e Appointment_findOne"
      "\<not> rejects e Appointment_save"
    and ex: "body_practiceId b \<in> oid ` set (practices s)"
      "body_patientId b \<in> oid ` set (patients s)"
      "body_providerId b \<in> oid ` set (providers s)"
    and d: "new_Date e (body_appointmentDate b) = Some d"
    and free: "\<forall>a \<in> set (appointments s).
        providerId a = body_providerId b \<and> appointmentDate a = d \<and>
        startTime a = body_startTime b \<longrightarrow>
        status a = ''cancelled'' \<or> status a = ''no-show''"
    and fail: "rejects e Patient_updateStats \<or> rejects e Appointment_countDocuments_provider \<or>
      rejects e Provider_updateStats \<or> rejects e Appointment_countDocuments_practice \<or>
      rejects e Practice_updateStats"
  shows "\<exists>a' c. fst (create_appointment e b s) =
             (json_error 500 ''Failed to create appointment'')\<lparr>details := Some (Rejected c)\<rparr> \<and>
           rejects e c \<and>
           appointments (snd (create_appointment e b s)) = appointments s @ [a'] \<and>
           oid a' \<notin> oid ` set (appointments s) \<and>
           practiceId a' = body_practiceId b \<and> patientId a' = body_patientId b \<and>
           providerId a' = body_providerId b \<and> appointmentDate a' = d \<and>
           startTime a' = body_startTime b \<and> endTime a' = body_endTime b"
proof -
  obtain practice patient provider where f:
    "findById (practices s) (body_practiceId b) = Some practice"
    "findById (patients s) (body_patientId b) = Some patient"
    "findById (providers s) (body_providerId b) = Some provider"
    using findById_present [OF ex(1)] findById_present [OF ex(2)] findById_present [OF ex(3)]
    by blast
  have "\<forall>a \<in> set (appointments s).
      \<not> matches (conflict_filters (body_providerId b) (Some d) (body_startTime b)) a"
    using free by (auto simp: matches_conflict_filters)
  then have none: "findOne (filter (matches (conflict_filters (body_providerId b) (Some d)
      (body_startTime b))) (appointments s)) = None"
    by (subst findOne_filter_None) simp
  obtain a' where a': "new_Appointment e b (fresh_oid (appointments s)) = Some a'"
    using d by (simp add: new_Appointment_def)
  from a' d have fields: "oid a' = fresh_oid (appointments s)"
    "practiceId a' = body_practiceId b" "patientId a' = body_patientId b"
    "providerId a' = body_providerId b" "appointmentDate a' = d"
    "startTime a' = body_startTime b" "endTime a' = body_endTime b"
    by (auto simp: new_Appointment_def)
  note run = create_appointment_def io_defs query_def save_def countDocuments_def
    patient_updateStats_def provider_updateStats_def practice_updateStats_def
    count_provider_filters count_practice_filters
  consider
      (1) "rejects e Patient_updateStats"
    | (2) "\<not> rejects e Patient_updateStats" "rejects e Appointment_countDocuments_provider"
    | (3) "\<not> rejects e Patient_updateStats" "\<not> rejects e Appointment_countDocuments_provider"
          "rejects e Provider_updateStats"
    | (4) "\<not> rejects e Patient_updateStats" "\<not> rejects e Appointment_countDocuments_provider"
          "\<not> rejects e Provider_updateStats" "rejects e Appointment_countDocuments_practice"
    | (5) "\<not> rejects e Patient_updateStats" "\<not> rejects e Appointment_countDocuments_provider"
          "\<not> rejects e Provider_updateStats" "\<not> rejects e Appointment_countDocuments_practice"
          "rejects e Practice_updateStats"
    using fail by blast
  then obtain c where c: "rejects e c"
    "fst (create_appointment e b s) =
       (json_error 500 ''Failed to create appointment'')\<lparr>details := Some (Rejected c)\<rparr>"
    "appointments (snd (create_appointment e b s)) = appointments s @ [a']"
  proof cases
    case 1
    with res f d none a' that [of Patient_updateStats] show ?thesis by (simp add: run)
  next
    case 2
    with res f d none a' that [of Appointment_countDocuments_provider] show ?thesis
      by (simp add: run)
  next
    case 3
    with res f d none a' that [of Provider_updateStats] show ?thesis by (simp add: run)
  next
    case 4
    with res f d none a' that [of Appointment_countDocuments_practice] show ?thesis
      by (simp add: run)
  next
    case 5
    with res f d none a' that [of Practice_updateStats] show ?thesis by (simp add: run)
  qed
  with fields fresh_oid_fresh [of "appointments s"] show ?thesis
    by (intro exI [of _ a'] exI [of _ c]) simp
qed

theorem create_stats_failure_witness:
  "\<not> rejects env1 Practice_findById \<and> \<not> rejects env1 Patient_findById \<and>
   \<not> rejects env1 Provider_findById \<and> \<not> rejects env1 Appointment_findOne \<and>
   \<not> rejects env1 Appointment_save \<and> rejects env1 Patient_updateStats \<and>
   body_practiceId body1 \<in> oid ` set (practices db0) \<and>
   body_patientId body1 \<in> oid ` set (patients db0) \<and>
   body_providerId body1 \<in> oid ` set (providers db0) \<and>
   new_Date env1 (body_appointmentDate body1) = Some 1704844800000 \<and>
   (\<exists>a' c. fst (create_appointment env1 body1 db0) =
            (json_error 500 ''Failed to create appointment'')\<lparr>details := Some (Rejected c)\<rparr> \<and>
          rejects env1 c \<and>
          appointments (snd (create_appointment env1 body1 db0)) = appointments db0 @ [a'] \<and>
          oid a' \<notin> oid ` set (appointments db0) \<and>
          practiceId a' = body_practiceId body1 \<and> patientId a' = body_patientId body1 \<and>
          providerId a' = body_providerId body1 \<and> appointmentDate a' = 1704844800000 \<and>
          startTime a' = body_startTime body1 \<and> endTime a' = body_endTime body1)"
  using create_stats_failure [of env1 body1 db0 1704844800000]
  by (simp add: sample_defs env1_def)

text \<open>
  C8 as stated fails: with the same store and request, the answer is the 201 success
  response when every call resolves, and a 500 response when the update of the patient's
  statistics rejects; in both runs the appointment is in the store afterwards.
\<close>

theorem create_stats_failure_counterexample:
  "res_status (fst (create_appointment env0 body1 db0)) = 201 \<and>
   res_status (fst (create_appointment env1 body1 db0)) = 500 \<and>
   success (fst (create_appointment env1 body1 db0)) = False \<and>
   fst (create_appointment env1 body1 db0) \<noteq> fst (create_appointment env0 body1 db0) \<and>
   appointments (snd (create_appointment env1 body1 db0)) = [appt1, appt2, appt3] \<and>
   appointments (snd (create_appointment env0 body1 db0)) = [appt1, appt2, appt3]"
  by (simp add: sample_create sample_create_failing json_success_def json_error_def)

subsection \<open>Rescheduling\<close>

text \<open>
  C3. For a stored appointment \<open>A\<close> and a new date that parses, when the reads resolve:
  the request is answered with 400 when another appointment (a different identifier) of
  \<open>A\<close>'s provider, neither cancelled nor no-show, has the new date and start time; and
  it is accepted, with \<open>A\<close> moved, when every such appointment at the new slot has
  \<open>A\<close>'s identifier, so that \<open>A\<close> itself never blocks its own slot.
\<close>

theorem reschedule_conflict_check:
  assumes res: "\<not> rejects e Appointment_findById" "\<not> rejects e Appointment_findOne"
    and A: "findById (appointments s) i = Some A"
    and d: "new_Date e (newDate b) = Some d"
  shows "((\<exists>x \<in> set (appointments s).
             oid x \<noteq> oid A \<and> providerId x = providerId A \<and> appointmentDate x = d \<and>
             startTime x = newStartTime b \<and>
             status x \<noteq> ''cancelled'' \<and> status x \<noteq> ''no-show'') \<longrightarrow>
          reschedule_appointment e i b s =
            (json_error 400 ''New time slot already booked'', s)) \<and>
         (\<not> rejects e Appointment_reschedule \<and>
          (\<forall>x \<in> set (appointments s).
             providerId x = providerId A \<and> appointmentDate x = d \<and>
             startTime x = newStartTime b \<and>
             status x \<noteq> ''cancelled'' \<and> status x \<noteq> ''no-show'' \<longrightarrow> oid x = oid A) \<longrightarrow>
          reschedule_appointment e i b s =
            ((json_success 200)
               \<lparr>message := Some ''Appointment rescheduled'',
                data := Some (A\<lparr>appointmentDate := d, startTime := newStartTime b,
                                endTime := newEndTime b\<rparr>)\<rparr>,
             s\<lparr>appointments := update_doc (oid A)
                  (\<lambda>_. A\<lparr>appointmentDate := d, startTime := newStartTime b,
                           endTime := newEndTime b\<rparr>) (appointments s)\<rparr>))"
proof (intro conjI impI)
  let ?f = "(conflict_filters (providerId A) (Some d) (newStartTime b))\<lparr>f_id := Some (Ne (oid A))\<rparr>"
  assume "\<exists>x \<in> set (appointments s).
             oid x \<noteq> oid A \<and> providerId x = providerId A \<and> appointmentDate x = d \<and>
             startTime x = newStartTime b \<and>
             status x \<noteq> ''cancelled'' \<and> status x \<noteq> ''no-show''"
  then obtain x where "x \<in> set (appointments s)" "matches ?f x"
    by (auto simp: matches_conflict_filters_id)
  then obtain y where "findOne (filter (matches ?f) (appointments s)) = Some y"
    by (blast dest: findOne_filter_Some)
  with res A d show "reschedule_appointment e i b s =
      (json_error 400 ''New time slot already booked'', s)"
    by (simp add: reschedule_appointment_def io_defs query_def)
next
  let ?f = "(conflict_filters (providerId A) (Some d) (newStartTime b))\<lparr>f_id := Some (Ne (oid A))\<rparr>"
  assume h: "\<not> rejects e Appointment_reschedule \<and>
          (\<forall>x \<in> set (appointments s).
             providerId x = providerId A \<and> appointmentDate x = d \<and>
             startTime x = newStartTime b \<and>
             status x \<noteq> ''cancelled'' \<and> status x \<noteq> ''no-show'' \<longrightarrow> oid x = oid A)"
  then have "\<forall>x \<in> set (appointments s). \<not> matches ?f x"
    by (auto simp: matches_conflict_filters_id)
  then have "findOne (filter (matches ?f) (appointments s)) = None"
    by (subst findOne_filter_None) simp
  with res A d h show "reschedule_appointment e i b s =
            ((json_success 200)
               \<lparr>message := Some ''Appointment rescheduled'',
                data := Some (A\<lparr>appointmentDate := d, startTime := newStartTime b,
                                endTime := newEndTime b\<rparr>)\<rparr>,
             s\<lparr>appointments := update_doc (oid A)
                  (\<lambda>_. A\<lparr>appointmentDate := d, startTime := newStartTime b,
                           endTime := newEndTime b\<rparr>) (appointments s)\<rparr>)"
    by (simp add: reschedule_appointment_def io_defs query_def appointment_reschedule_def
        Let_def)
qed

theorem reschedule_conflict_check_witness:
  "\<not> rejects env0 Appointment_findById \<and> \<not> rejects env0 Appointment_findOne \<and>
   \<not> rejects env0 Appointment_reschedule \<and>
   new_Date env0 (newDate body2) = Some 1704844800000 \<and>
   findById (appointments db0) 2 = Some appt2 \<and>
   appt1 \<in> set (appointments db0) \<and> oid appt1 \<noteq> oid appt2 \<and>
   providerId appt1 = providerId appt2 \<and> appointmentDate appt1 = 1704844800000 \<and>
   startTime appt1 = newStartTime body2 \<and>
   status appt1 \<noteq> ''cancelled'' \<and> status appt1 \<noteq> ''no-show'' \<and>
   reschedule_appointment env0 2 body2 db0 =
     (json_error 400 ''New time slot already booked'', db0) \<and>
   findById (appointments db0) 1 = Some appt1 \<and>
   filter (\<lambda>x. providerId x = providerId appt1 \<and> appointmentDate x = 1704844800000 \<and>
                startTime x = newStartTime body2 \<and>
                status x \<noteq> ''cancelled'' \<and> status x \<noteq> ''no-show'') (appointments db0) = [appt1] \<and>
   fst (reschedule_appointment env0 1 body2 db0) =
     (json_success 200)\<lparr>message := Some ''Appointment rescheduled'', data := Some appt1\<rparr>"
  using reschedule_conflict_check [of env0 db0 2 appt2 body2 1704844800000]
    reschedule_conflict_check [of env0 db0 1 appt1 body2 1704844800000]
  by (simp add: sample_defs body2_def findById_def update_doc_def)

subsection \<open>Available slots\<close>




subsection \<open>Listing\<close>

text \<open>
  C4, as amended. When the query resolves: with \<^verbatim>\<open>date=D\<close> the appointments returned
  are exactly the stored ones (that pass the other filters) dated in \<open>[D, N)\<close>, where
  \<open>N\<close> is the same local time on the next calendar day of the server, that is \<open>D\<close>
  plus 24 hours and plus the offset of the zone at \<open>D\<close>, minus its offset one local day
  later, provided \<open>N\<close> is a time value; when \<open>N\<close> is past the range of time values the
  answer is 500. With \<^verbatim>\<open>startDate=A\<close> and \<^verbatim>\<open>endDate=B\<close>, and no \<^verbatim>\<open>date\<close>, they
  are exactly those dated in \<open>[A, B]\<close>. The list is in the order of date, then start
  time.
\<close>

theorem list_date_filter:
  assumes "\<not> rejects e Appointment_find"
  shows "(q_date q = Some D \<and> D \<noteq> [] \<and> new_Date e D = Some d \<and>
          n = d + localTZA e d True + 86400000
                - localTZA e (d + localTZA e d True + 86400000) False \<and>
          \<bar>n\<bar> \<le> 8640000000000000 \<longrightarrow>
           (\<exists>xs. list_appointments e q s =
                    ((json_success 200)\<lparr>count := Some (length xs),
                                        data := Some (map (populate s) xs)\<rparr>, s) \<and>
                 mset xs = filter_mset
                   (\<lambda>a. other_filters q a \<and>
                        d \<le> appointmentDate a \<and> appointmentDate a < n)
                   (mset (appointments s)) \<and>
                 sorted_wrt by_date_then_start xs)) \<and>
         (q_date q = Some D \<and> D \<noteq> [] \<and> new_Date e D = Some d \<and>
          n = d + localTZA e d True + 86400000
                - localTZA e (d + localTZA e d True + 86400000) False \<and>
          \<not> \<bar>n\<bar> \<le> 8640000000000000 \<longrightarrow>
           list_appointments e q s =
             ((json_error 500 ''Failed to fetch appointments'')\<lparr>details := Some CastError\<rparr>,
              s)) \<and>
         (truthy (q_date q) = None \<and> q_startDate q = Some A \<and> A \<noteq> [] \<and>
          q_endDate q = Some B \<and> B \<noteq> [] \<and> new_Date e A = Some lo \<and> new_Date e B = Some hi \<longrightarrow>
           (\<exists>xs. list_appointments e q s =
                    ((json_success 200)\<lparr>count := Some (length xs),
                                        data := Some (map (populate s) xs)\<rparr>, s) \<and>
                 mset xs = filter_mset
                   (\<lambda>a. other_filters q a \<and>
                        lo \<le> appointmentDate a \<and> appointmentDate a \<le> hi)
                   (mset (appointments s)) \<and>
                 sorted_wrt by_date_then_start xs))"
proof (intro conjI impI; elim conjE)
  let ?xs = "sort_appointments (filter (matches (list_filters e q)) (appointments s))"
  assume "q_date q = Some D" "D \<noteq> []" and d: "new_Date e D = Some d"
    and n: "n = d + localTZA e d True + 86400000
                - localTZA e (d + localTZA e d True + 86400000) False"
      "\<bar>n\<bar> \<le> 8640000000000000"
  then have t: "truthy (q_date q) = Some D" by (simp add: truthy_def)
  from n have next_day: "setDate_next e (Some d) = Some n"
    by (simp add: setDate_next_Some)
  have "list_appointments e q s =
      ((json_success 200)\<lparr>count := Some (length ?xs), data := Some (map (populate s) ?xs)\<rparr>, s)"
    using list_appointments_run [OF assms matches_list_filters_date(1) [OF t d next_day]]
    by (simp add: sort_appointments_def)
  moreover have "mset ?xs = filter_mset
      (\<lambda>a. other_filters q a \<and> d \<le> appointmentDate a \<and> appointmentDate a < n)
      (mset (appointments s))"
    by (simp add: mset_sort_appointments matches_list_filters_date(2) [OF t d next_day])
  ultimately show "\<exists>xs. list_appointments e q s =
                    ((json_success 200)\<lparr>count := Some (length xs),
                                        data := Some (map (populate s) xs)\<rparr>, s) \<and>
                 mset xs = filter_mset
                   (\<lambda>a. other_filters q a \<and>
                        d \<le> appointmentDate a \<and> appointmentDate a < n)
                   (mset (appointments s)) \<and>
                 sorted_wrt by_date_then_start xs"
    using sorted_sort_appointments by blast
next
  assume "q_date q = Some D" "D \<noteq> []" and d: "new_Date e D = Some d"
    and n: "n = d + localTZA e d True + 86400000
                - localTZA e (d + localTZA e d True + 86400000) False"
      "\<not> \<bar>n\<bar> \<le> 8640000000000000"
  then have t: "truthy (q_date q) = Some D" by (simp add: truthy_def)
  from n have "setDate_next e (Some d) = None"
    by (simp add: setDate_next_Some)
  from list_appointments_cast_error [OF assms not_castable_list_filters_date [OF t d this]]
  show "list_appointments e q s =
      ((json_error 500 ''Failed to fetch appointments'')\<lparr>details := Some CastError\<rparr>, s)" .
next
  let ?xs = "sort_appointments (filter (matches (list_filters e q)) (appointments s))"
  assume n: "truthy (q_date q) = None"
    and "q_startDate q = Some A" "A \<noteq> []" "q_endDate q = Some B" "B \<noteq> []"
    and lo: "new_Date e A = Some lo" and hi: "new_Date e B = Some hi"
  then have t: "truthy (q_startDate q) = Some A" "truthy (q_endDate q) = Some B"
    by (simp_all add: truthy_def)
  have "list_appointments e q s =
      ((json_success 200)\<lparr>count := Some (length ?xs), data := Some (map (populate s) ?xs)\<rparr>, s)"
    using list_appointments_run [OF assms matches_list_filters_range(1) [OF n t lo hi]]
    by (simp add: sort_appointments_def)
  moreover have "mset ?xs = filter_mset
      (\<lambda>a. other_filters q a \<and> lo \<le> appointmentDate a \<and> appointmentDate a \<le> hi)
      (mset (appointments s))"
    by (simp add: mset_sort_appointments matches_list_filters_range(2) [OF n t lo hi])
  ultimately show "\<exists>xs. list_appointments e q s =
                    ((json_success 200)\<lparr>count := Some (length xs),
                                        data := Some (map (populate s) xs)\<rparr>, s) \<and>
                 mset xs = filter_mset
                   (\<lambda>a. other_filters q a \<and>
                        lo \<le> appointmentDate a \<and> appointmentDate a \<le> hi)
                   (mset (appointments s)) \<and>
                 sorted_wrt by_date_then_start xs"
    using sorted_sort_appointments by blast
qed

theorem list_date_filter_witness:
  "\<not> rejects env0 Appointment_find \<and>
   q_date query_date = Some ''2024-01-10'' \<and> ''2024-01-10'' \<noteq> [] \<and>
   new_Date env0 ''2024-01-10'' = Some 1704844800000 \<and>
   1704931200000 = 1704844800000 + localTZA env0 1704844800000 True + 86400000
     - localTZA env0 (1704844800000 + localTZA env0 1704844800000 True + 86400000) False \<and>
   (\<exists>xs. list_appointments env0 query_date db1 =
            ((json_success 200)\<lparr>count := Some (length xs),
                                data := Some (map (populate db1) xs)\<rparr>, db1) \<and>
         mset xs = filter_mset
           (\<lambda>a. other_filters query_date a \<and>
                1704844800000 \<le> appointmentDate a \<and> appointmentDate a < 1704931200000)
           (mset (appointments db1)) \<and>
         sorted_wrt by_date_then_start xs) \<and>
   list_appointments env0 query_date db1 =
     ((json_success 200)\<lparr>count := Some 2, data := Some (map (populate db1) [appt1, appt2])\<rparr>,
      db1) \<and>
   \<not> rejects env_dst Appointment_find \<and>
   q_date query_dst = Some ''2024-03-10'' \<and>
   new_Date env_dst ''2024-03-10'' = Some 1710028800000 \<and>
   1710111600000 = 1710028800000 + localTZA env_dst 1710028800000 True + 86400000
     - localTZA env_dst (1710028800000 + localTZA env_dst 1710028800000 True + 86400000) False \<and>
   (\<exists>xs. list_appointments env_dst query_dst db_dst =
            ((json_success 200)\<lparr>count := Some (length xs),
                                data := Some (map (populate db_dst) xs)\<rparr>, db_dst) \<and>
         mset xs = filter_mset
           (\<lambda>a. other_filters query_dst a \<and>
                1710028800000 \<le> appointmentDate a \<and> appointmentDate a < 1710111600000)
           (mset (appointments db_dst)) \<and>
         sorted_wrt by_date_then_start xs) \<and>
   \<not> rejects env_max Appointment_find \<and>
   q_date query_max = Some ''+275760-09-13'' \<and>
   new_Date env_max ''+275760-09-13'' = Some 8640000000000000 \<and>
   8640000086400000 = 8640000000000000 + localTZA env_max 8640000000000000 True + 86400000
     - localTZA env_max (8640000000000000 + localTZA env_max 8640000000000000 True + 86400000)
         False \<and>
   list_appointments env_max query_max db_max =
     ((json_error 500 ''Failed to fetch appointments'')\<lparr>details := Some CastError\<rparr>, db_max) \<and>
   truthy (q_date query_range) = None \<and>
   q_startDate query_range = Some ''2024-01-10'' \<and>
   q_endDate query_range = Some ''2024-01-11'' \<and> ''2024-01-11'' \<noteq> [] \<and>
   new_Date env0 ''2024-01-11'' = Some 1704931200000 \<and>
   (\<exists>xs. list_appointments env0 query_range db1 =
            ((json_success 200)\<lparr>count := Some (length xs),
                                data := Some (map (populate db1) xs)\<rparr>, db1) \<and>
         mset xs = filter_mset
           (\<lambda>a. other_filters query_range a \<and>
                1704844800000 \<le> appointmentDate a \<and> appointmentDate a \<le> 1704931200000)
           (mset (appointments db1)) \<and>
         sorted_wrt by_date_then_start xs)"
proof -
  have r: "\<not> rejects env0 Appointment_find" "\<not> rejects env_dst Appointment_find"
    "\<not> rejects env_max Appointment_find"
    by (simp_all add: env0_def env_dst_def env_max_def)
  have q: "q_date query_date = Some ''2024-01-10''" "q_date query_dst = Some ''2024-03-10''"
    "q_date query_max = Some ''+275760-09-13''"
    "truthy (q_date query_range) = None"
    "q_startDate query_range = Some ''2024-01-10''"
    "q_endDate query_range = Some ''2024-01-11''"
    "''2024-01-10'' \<noteq> []" "''2024-01-11'' \<noteq> []" "''2024-03-10'' \<noteq> []"
    "''+275760-09-13'' \<noteq> []"
    by (simp_all add: query_date_def query_range_def query_dst_def query_max_def query0_def
        truthy_def)
  have d: "new_Date env0 ''2024-01-10'' = Some 1704844800000"
    "new_Date env0 ''2024-01-11'' = Some 1704931200000"
    "new_Date env_dst ''2024-03-10'' = Some 1710028800000"
    "new_Date env_max ''+275760-09-13'' = Some 8640000000000000"
    by (simp_all add: env0_def env_dst_def env_max_def)
  have n1: "1704931200000 = 1704844800000 + localTZA env0 1704844800000 True + 86400000
     - localTZA env0 (1704844800000 + localTZA env0 1704844800000 True + 86400000) False"
    by (simp add: env0_def)
  have n2: "1710111600000 = 1710028800000 + localTZA env_dst 1710028800000 True + 86400000
     - localTZA env_dst (1710028800000 + localTZA env_dst 1710028800000 True + 86400000) False"
    by (simp add: env_dst_def)
  have n3: "8640000086400000 = 8640000000000000 + localTZA env_max 8640000000000000 True + 86400000
     - localTZA env_max (8640000000000000 + localTZA env_max 8640000000000000 True + 86400000)
         False"
    by (simp add: env_max_def env0_def)
  have b: "\<bar>1704931200000 :: int\<bar> \<le> 8640000000000000"
    "\<bar>1710111600000 :: int\<bar> \<le> 8640000000000000"
    "\<not> \<bar>8640000086400000 :: int\<bar> \<le> 8640000000000000"
    by simp_all
  from list_date_filter [OF r(1), of query_date "''2024-01-10''" 1704844800000 1704931200000 db1]
    q(1) q(7) d(1) n1 b(1)
  have 1: "\<exists>xs. list_appointments env0 query_date db1 =
            ((json_success 200)\<lparr>count := Some (length xs),
                                data := Some (map (populate db1) xs)\<rparr>, db1) \<and>
         mset xs = filter_mset
           (\<lambda>a. other_filters query_date a \<and>
                1704844800000 \<le> appointmentDate a \<and> appointmentDate a < 1704931200000)
           (mset (appointments db1)) \<and>
         sorted_wrt by_date_then_start xs"
    by blast
  from list_date_filter [OF r(2), of query_dst "''2024-03-10''" 1710028800000 1710111600000
      db_dst] q(2) q(9) d(3) n2 b(2)
  have 2: "\<exists>xs. list_appointments env_dst query_dst db_dst =
            ((json_success 200)\<lparr>count := Some (length xs),
                                data := Some (map (populate db_dst) xs)\<rparr>, db_dst) \<and>
         mset xs = filter_mset
           (\<lambda>a. other_filters query_dst a \<and>
                1710028800000 \<le> appointmentDate a \<and> appointmentDate a < 1710111600000)
           (mset (appointments db_dst)) \<and>
         sorted_wrt by_date_then_start xs"
    by blast
  from list_date_filter [OF r(3), of query_max "''+275760-09-13''" 8640000000000000
      8640000086400000 db_max] q(3) q(10) d(4) n3 b(3)
  have 3: "list_appointments env_max query_max db_max =
     ((json_error 500 ''Failed to fetch appointments'')\<lparr>details := Some CastError\<rparr>, db_max)"
    by blast
  from list_date_filter [OF r(1), of query_range _ _ _ db1 "''2024-01-10''" "''2024-01-11''"
      1704844800000 1704931200000] q(4) q(5) q(6) q(7) q(8) d(1) d(2)
  have 4: "\<exists>xs. list_appointments env0 query_range db1 =
            ((json_success 200)\<lparr>count := Some (length xs),
                                data := Some (map (populate db1) xs)\<rparr>, db1) \<and>
         mset xs = filter_mset
           (\<lambda>a. other_filters query_range a \<and>
                1704844800000 \<le> appointmentDate a \<and> appointmentDate a \<le> 1704931200000)
           (mset (appointments db1)) \<and>
         sorted_wrt by_date_then_start xs"
    by blast
  show ?thesis
    by (intro conjI) (fact r q d n1 n2 n3 1 2 3 4 sample_list(1))+
qed

text \<open>
  C4 as stated fails, twice. For the last day of the range of time values the day after
  is an Invalid Date, the query does not cast, and the answer is 500 although the store
  holds an appointment of that date. And on a server whose zone moves its clock forward
  on 2024-03-10, the appointment at 23:30 UTC of that day lies within 24 hours of
  \<^verbatim>\<open>new Date('2024-03-10')\<close> and is not returned, the next local day starting 23 hours
  after it.
\<close>

theorem list_date_filter_counterexample:
  "q_date query_max = Some ''+275760-09-13'' \<and>
   new_Date env_max ''+275760-09-13'' = Some 8640000000000000 \<and>
   appt6 \<in> set (appointments db_max) \<and> other_filters query_max appt6 \<and>
   8640000000000000 \<le> appointmentDate appt6 \<and>
   appointmentDate appt6 < 8640000000000000 + 86400000 \<and>
   list_appointments env_max query_max db_max =
     ((json_error 500 ''Failed to fetch appointments'')\<lparr>details := Some CastError\<rparr>, db_max) \<and>
   q_date query_dst = Some ''2024-03-10'' \<and>
   new_Date env_dst ''2024-03-10'' = Some 1710028800000 \<and>
   appt5 \<in> set (appointments db_dst) \<and> other_filters query_dst appt5 \<and>
   1710028800000 \<le> appointmentDate appt5 \<and>
   appointmentDate appt5 < 1710028800000 + 86400000 \<and>
   list_appointments env_dst query_dst db_dst =
     ((json_success 200)\<lparr>count := Some 0, data := Some []\<rparr>, db_dst)"
proof -
  have "q_date query_max = Some ''+275760-09-13''" "q_date query_dst = Some ''2024-03-10''"
    by (simp_all add: query_max_def query_dst_def query0_def)
  moreover have "new_Date env_max ''+275760-09-13'' = Some 8640000000000000"
    "new_Date env_dst ''2024-03-10'' = Some 1710028800000"
    by (simp_all add: env_max_def env_dst_def)
  moreover have "appt6 \<in> set (appointments db_max)" "appt5 \<in> set (appointments db_dst)"
    by (simp_all add: db_max_def db_dst_def)
  moreover have "other_filters query_max appt6" "other_filters query_dst appt5"
    by (simp_all add: other_filters_def query_max_def query_dst_def query0_def truthy_def
        appt5_def appt6_def)
  moreover have "8640000000000000 \<le> appointmentDate appt6"
    "appointmentDate appt6 < 8640000000000000 + 86400000"
    "1710028800000 \<le> appointmentDate appt5"
    "appointmentDate appt5 < 1710028800000 + 86400000"
    by (simp_all add: appt5_def appt6_def)
  ultimately show ?thesis
    using sample_list_max sample_list_dst by blast
qed

text \<open>
  C10. A list request without \<^verbatim>\<open>date\<close> and with at most one of \<^verbatim>\<open>startDate\<close> and
  \<^verbatim>\<open>endDate\<close> is answered as the same request without either bound: no date filter
  applies, and the appointments of every date that pass the other filters are returned.
\<close>

theorem list_one_bound_only:
  assumes "truthy (q_date q) = None"
    and "truthy (q_startDate q) = None \<or> truthy (q_endDate q) = None"
  shows "list_appointments e q s =
           list_appointments e (q\<lparr>q_startDate := None, q_endDate := None\<rparr>) s \<and>
         (\<not> rejects e Appointment_find \<longrightarrow>
           (\<exists>xs. list_appointments e q s =
                    ((json_success 200)\<lparr>count := Some (length xs),
                                        data := Some (map (populate s) xs)\<rparr>, s) \<and>
                 mset xs = filter_mset (other_filters q) (mset (appointments s))))"
proof (intro conjI impI)
  have "list_filters e q = list_filters e (q\<lparr>q_startDate := None, q_endDate := None\<rparr>)"
    using assms by (auto simp: list_filters_eq truthy_def [of None] split: option.splits)
  then show "list_appointments e q s =
      list_appointments e (q\<lparr>q_startDate := None, q_endDate := None\<rparr>) s"
    by (simp add: list_appointments_def)
next
  let ?xs = "sort_appointments (filter (matches (list_filters e q)) (appointments s))"
  assume r: "\<not> rejects e Appointment_find"
  have "list_appointments e q s =
      ((json_success 200)\<lparr>count := Some (length ?xs), data := Some (map (populate s) ?xs)\<rparr>, s)"
    using list_appointments_run [OF r matches_list_filters_none(1) [OF assms]]
    by (simp add: sort_appointments_def)
  moreover have "mset ?xs = filter_mset (other_filters q) (mset (appointments s))"
    using matches_list_filters_none(2) [OF assms]
    by (simp add: mset_sort_appointments cong: filter_mset_cong)
  ultimately show "\<exists>xs. list_appointments e q s =
                    ((json_success 200)\<lparr>count := Some (length xs),
                                        data := Some (map (populate s) xs)\<rparr>, s) \<and>
                 mset xs = filter_mset (other_filters q) (mset (appointments s))"
    by blast
qed

theorem list_one_bound_only_witness:
  "truthy (q_date query_start) = None \<and>
   truthy (q_startDate query_start) = Some ''2024-01-11'' \<and>
   truthy (q_endDate query_start) = None \<and>
   \<not> rejects env0 Appointment_find \<and>
   list_appointments env0 query_start db1 =
     list_appointments env0 (query_start\<lparr>q_startDate := None, q_endDate := None\<rparr>) db1 \<and>
   (\<exists>xs. list_appointments env0 query_start db1 =
            ((json_success 200)\<lparr>count := Some (length xs),
                                data := Some (map (populate db1) xs)\<rparr>, db1) \<and>
         mset xs = filter_mset (other_filters query_start) (mset (appointments db1))) \<and>
   list_appointments env0 query_start db1 =
     ((json_success 200)\<lparr>count := Some 3,
                         data := Some (map (populate db1) [appt1, appt2, appt4])\<rparr>, db1)"
proof -
  have h: "truthy (q_date query_start) = None"
    "truthy (q_startDate query_start) = Some ''2024-01-11''"
    "truthy (q_endDate query_start) = None"
    "\<not> rejects env0 Appointment_find"
    by (simp_all add: query_start_def query0_def env0_def truthy_def)
  from list_one_bound_only [of query_start env0 db1] h sample_list(3)
  show ?thesis by blast
qed

end
